theory Spec2Isabelle
  imports Main "HOL-Library.Word"
begin

section \<open>JavaScript values as the handlers see them\<close>

text \<open>
  The handlers read their input with \<open>JSON.parse\<close> / \<open>req.json()\<close>. A parsed value is a
  \<open>json\<close>; a JavaScript value that may be \<open>undefined\<close> is a \<open>json option\<close>. A number is
  held as its JavaScript rendering \<open>String(n)\<close>, which is all the handlers ever do with one
  (truthiness and interpolation); zero renders as \<open>0\<close>.
\<close>

type_synonym bytes = "8 word list"

datatype json =
    JNull
  | JBool bool
  | JNum string
  | JStr string
  | JArr "json list"
  | JObj "(string \<times> json) list"

text \<open>The test behind \<open>!x\<close>, \<open>x || y\<close> and \<open>if (x)\<close>.\<close>

fun truthy :: "json option \<Rightarrow> bool" where
  "truthy None = False"
| "truthy (Some JNull) = False"
| "truthy (Some (JBool b)) = b"
| "truthy (Some (JNum n)) = (n \<noteq> ''0'')"
| "truthy (Some (JStr s)) = (s \<noteq> [])"
| "truthy (Some (JArr xs)) = True"
| "truthy (Some (JObj kvs)) = True"

text \<open>The same test on a nullable text column or environment variable.\<close>

fun present :: "string option \<Rightarrow> bool" where
  "present None = False"
| "present (Some s) = (s \<noteq> [])"

text \<open>
  \<open>v.k\<close> on a value that is neither \<open>null\<close> nor \<open>undefined\<close>, for the keys the handlers
  read (\<open>event\<close>, \<open>eventType\<close>, \<open>document\<close>, \<open>documentId\<close>, \<open>letterId\<close>): only an object
  has them.
\<close>

fun get_prop :: "json \<Rightarrow> string \<Rightarrow> json option" where
  "get_prop (JObj kvs) k = map_of kvs k"
| "get_prop v k = None"

text \<open>\<open>x?.k\<close>: \<open>undefined\<close> when \<open>x\<close> is \<open>null\<close> or \<open>undefined\<close>.\<close>

fun opt_chain :: "json option \<Rightarrow> string \<Rightarrow> json option" where
  "opt_chain None k = None"
| "opt_chain (Some JNull) k = None"
| "opt_chain (Some v) k = get_prop v k"

definition js_or :: "json option \<Rightarrow> json option \<Rightarrow> json option" where
  "js_or a b = (if truthy a then a else b)"

text \<open>
  \<open>String(v)\<close>, the coercion behind template literals, query filters and
  \<open>encodeURIComponent\<close>. A parsed object holds no function, so an object with an own
  key \<open>toString\<close> has nothing to convert it and the coercion throws a TypeError: the
  model answers \<open>None\<close>. An array joins the coercions of its elements, with \<open>null\<close>
  rendered empty, and throws where one of them does.
\<close>

fun commas :: "string list \<Rightarrow> string" where
  "commas [] = []"
| "commas [s] = s"
| "commas (s # t # ss) = s @ '','' @ commas (t # ss)"

fun js_String :: "json \<Rightarrow> string option" where
  "js_String JNull = Some ''null''"
| "js_String (JBool b) = Some (if b then ''true'' else ''false'')"
| "js_String (JNum n) = Some n"
| "js_String (JStr s) = Some s"
| "js_String (JArr xs) =
     map_option commas (those (map (\<lambda>x. if x = JNull then Some [] else js_String x) xs))"
| "js_String (JObj kvs) =
     (if ''toString'' \<in> fst ` set kvs then None else Some ''[object Object]'')"

text \<open>A nullable text column inside a template literal.\<close>

definition interp :: "string option \<Rightarrow> string" where
  "interp c = (case c of None \<Rightarrow> ''null'' | Some s \<Rightarrow> s)"

definition digit :: "nat \<Rightarrow> char" where
  "digit n = ''0123456789'' ! (n mod 10)"

function decimal :: "nat \<Rightarrow> string" where
  "decimal n = (if n < 10 then [digit n] else decimal (n div 10) @ [digit (n mod 10)])"
  by pat_completeness auto
termination
  by (relation "measure id") auto

section \<open>Tables, artifact store and the record of outbound calls\<close>

text \<open>The columns of \<open>engagement_letters\<close> and \<open>clients\<close> that the handlers touch.\<close>

record letter =
  ident :: string
  client_id :: "string option"
  boldsign_document_id :: "string option"
  esign_status :: "string option"
  approval_status :: "string option"
  signed_pdf_path :: "string option"

record client =
  client_ident :: string
  status :: "string option"
  letter_executed :: "string option"
  entity_name :: "string option"
  contact_name :: "string option"
  matter_type :: "string option"

record slack_message =
  slack_text :: string
  slack_client :: string
  slack_matter :: string
  slack_signed :: string

text \<open>
  Every call that leaves the handler is recorded when it is attempted, whether or not it
  succeeds: database reads and writes, the provider download, the artifact upload, the
  notification post.
\<close>

datatype effect =
    AuthGetUser string
  | SelectLetterByDocument string
  | SelectLetterById string
  | UpdateLetter string "(string \<times> string) list"
  | Download string
  | Upload string bytes
  | UpdateClient string "(string \<times> string) list"
  | SelectClient string
  | SlackPost string slack_message

record world =
  letters :: "letter list"
  clients :: "client list"
  storage :: "(string \<times> bytes) list"
  calls :: "effect list"
  console :: "string list list"

definition emit :: "effect \<Rightarrow> world \<Rightarrow> world" where
  "emit e w = w\<lparr>calls := calls w @ [e]\<rparr>"

definition console_log :: "string list \<Rightarrow> world \<Rightarrow> world" where
  "console_log args w = w\<lparr>console := console w @ [args]\<rparr>"

fun set_column :: "string \<times> string \<Rightarrow> letter \<Rightarrow> letter" where
  "set_column (k, v) r =
     (if k = ''esign_status'' then r\<lparr>esign_status := Some v\<rparr>
      else if k = ''approval_status'' then r\<lparr>approval_status := Some v\<rparr>
      else if k = ''signed_pdf_path'' then r\<lparr>signed_pdf_path := Some v\<rparr>
      else r)"

definition update_letter_rows :: "string \<Rightarrow> (string \<times> string) list \<Rightarrow> letter list \<Rightarrow> letter list" where
  "update_letter_rows i upd rows = map (\<lambda>r. if ident r = i then fold set_column upd r else r) rows"

fun set_client_column :: "string \<times> string \<Rightarrow> client \<Rightarrow> client" where
  "set_client_column (k, v) c =
     (if k = ''status'' then c\<lparr>status := Some v\<rparr>
      else if k = ''letter_executed'' then c\<lparr>letter_executed := Some v\<rparr>
      else c)"

definition update_client_rows :: "string \<Rightarrow> (string \<times> string) list \<Rightarrow> client list \<Rightarrow> client list" where
  "update_client_rows i upd rows =
     map (\<lambda>c. if client_ident c = i then fold set_client_column upd c else c) rows"

text \<open>\<open>upload(path, bytes, {upsert: true})\<close>: overwrite the object at the key, or add it.\<close>

fun upsert :: "string \<Rightarrow> bytes \<Rightarrow> (string \<times> bytes) list \<Rightarrow> (string \<times> bytes) list" where
  "upsert k v [] = [(k, v)]"
| "upsert k v ((k', v') # kvs) = (if k' = k then (k, v) # kvs else (k', v') # upsert k v kvs)"

text \<open>
  \<open>.update(upd).eq('id', i)\<close>. The call is recorded; when the database reports an error
  the rows are left as they were.
\<close>

definition db_update_letter :: "string option \<Rightarrow> string \<Rightarrow> (string \<times> string) list \<Rightarrow> world \<Rightarrow> world" where
  "db_update_letter err i upd w =
     (let w1 = emit (UpdateLetter i upd) w
      in case err of
           None \<Rightarrow> w1\<lparr>letters := update_letter_rows i upd (letters w1)\<rparr>
         | Some m \<Rightarrow> w1)"

definition db_update_client :: "string option \<Rightarrow> string \<Rightarrow> (string \<times> string) list \<Rightarrow> world \<Rightarrow> world" where
  "db_update_client err i upd w =
     (let w1 = emit (UpdateClient i upd) w
      in case err of
           None \<Rightarrow> w1\<lparr>clients := update_client_rows i upd (clients w1)\<rparr>
         | Some m \<Rightarrow> w1)"

definition storage_upload :: "string option \<Rightarrow> string \<Rightarrow> bytes \<Rightarrow> world \<Rightarrow> world" where
  "storage_upload err path content w =
     (let w1 = emit (Upload path content) w
      in case err of
           None \<Rightarrow> w1\<lparr>storage := upsert path content (storage w1)\<rparr>
         | Some m \<Rightarrow> w1)"

section \<open>Environment, platform and the outcomes of outbound calls\<close>

text \<open>
  \<open>Deno.env\<close>. \<open>SUPABASE_URL\<close> and the two Supabase keys are read with a non-null
  assertion and only build the database client, so they are not part of the model.
\<close>

record env =
  BOLDSIGN_WEBHOOK_SECRET :: "string option"
  BOLDSIGN_API_KEY :: "string option"
  SLACK_WEBHOOK_URL :: "string option"

text \<open>
  What the runtime computes and the source does not define: UTF-8 decoding and encoding
  (\<open>TextDecoder\<close> behind \<open>req.text()\<close>, \<open>TextEncoder\<close>), the base64 of the HMAC-SHA256
  of a message under a key, both byte sequences (\<open>crypto.subtle\<close> and \<open>btoa\<close>), and
  \<open>JSON.parse\<close>, which returns a value or throws an error with a message.
\<close>

record platform =
  utf8_decode :: "bytes \<Rightarrow> string"
  utf8_encode :: "string \<Rightarrow> bytes"
  hmac_sha256_base64 :: "bytes \<Rightarrow> bytes \<Rightarrow> string"
  JSON_parse :: "string \<Rightarrow> string + json"

text \<open>
  A request as it arrives: the method, the two headers the handlers read, and the bytes
  of the body. \<open>req.text()\<close> (and \<open>req.json()\<close> before it parses) decodes the bytes as
  UTF-8 and drops a leading byte order mark; the text the handlers work with is
  \<open>rawBody\<close>, not the bytes on the wire.
\<close>

record request =
  http_method :: string
  signature_header :: "string option"
  authorization :: "string option"
  wire_body :: bytes

definition strip_bom :: "bytes \<Rightarrow> bytes" where
  "strip_bom bs = (if take 3 bs = [0xEF, 0xBB, 0xBF] then drop 3 bs else bs)"

definition rawBody :: "platform \<Rightarrow> request \<Rightarrow> string" where
  "rawBody P req = utf8_decode P (strip_bom (wire_body req))"

datatype dl_result =
    DlThrows string
  | DlFail nat string
  | DlOk bytes

record user =
  email :: "string option"

text \<open>
  What each outbound call of one request answers. An error is the message the call
  reports; a download throws, answers a failure status with a text, or answers the bytes
  (with the \<open>content-type\<close> header); \<open>getUser\<close> answers a user or nothing;
  \<open>rls_visible\<close> is the row-level policy applied to a query made with the caller's own
  credentials.
\<close>

record outcomes =
  find_error :: bool
  update_error :: "string option"
  download :: dl_result
  content_type :: "string option"
  upload_error :: "string option"
  path_update_error :: "string option"
  client_error :: "string option"
  client_select_error :: bool
  slack_throws :: "string option"
  today :: string
  auth_user :: "user option"
  letter_error :: "string option"
  rls_visible :: "letter \<Rightarrow> bool"

section \<open>Responses\<close>

datatype body = Text string | Json "(string \<times> json) list"

record response =
  code :: nat
  content :: body

definition json_response :: "nat \<Rightarrow> (string \<times> json) list \<Rightarrow> response" where
  "json_response st kvs = \<lparr>code = st, content = Json kvs\<rparr>"

section \<open>boldsign-webhook\<close>

definition HANDLED_EVENTS :: "string list" where
  "HANDLED_EVENTS = [''Sent'', ''Viewed'', ''Signed'', ''Completed'', ''Declined'', ''Expired'', ''Revoked'']"

definition mapEventToStatus :: "string \<Rightarrow> string option" where
  "mapEventToStatus event =
     (if event = ''Sent'' then Some ''sent''
      else if event = ''Viewed'' then Some ''viewed''
      else if event = ''Signed'' then Some ''signed''
      else if event = ''Completed'' then Some ''completed''
      else if event = ''Declined'' then Some ''declined''
      else if event = ''Expired'' then Some ''expired''
      else if event = ''Revoked'' then Some ''revoked''
      else None)"

text \<open>Lines 28-41: the key and the message are the encodings of the secret and of the
  decoded body.\<close>

definition verifyWebhookSignature :: "platform \<Rightarrow> string \<Rightarrow> string \<Rightarrow> string \<Rightarrow> bool" where
  "verifyWebhookSignature P body signature secret =
     (hmac_sha256_base64 P (utf8_encode P secret) (utf8_encode P body) = signature)"

text \<open>The key both handlers store the signed PDF under.\<close>

definition storagePath :: "string option \<Rightarrow> string \<Rightarrow> string" where
  "storagePath cid lid = interp cid @ ''/'' @ lid @ ''_signed.pdf''"

text \<open>
  Lines 137-170: on \<open>Completed\<close>, when an API key is configured, download the signed PDF,
  upload it and store its path. Every failure is caught and logged.
\<close>

definition store_signed_pdf :: "env \<Rightarrow> outcomes \<Rightarrow> string \<Rightarrow> letter \<Rightarrow> world \<Rightarrow> world" where
  "store_signed_pdf E A documentId l w =
     (if present (BOLDSIGN_API_KEY E) then
        (let w1 = emit (Download documentId) w
         in case download A of
              DlThrows m \<Rightarrow> console_log [''Signed PDF download/upload failed:'', m] w1
            | DlFail st txt \<Rightarrow> console_log [''BoldSign download failed:'', decimal st, txt] w1
            | DlOk pdfBytes \<Rightarrow>
                (let path = storagePath (client_id l) (ident l);
                     w2 = storage_upload (upload_error A) path pdfBytes w1
                 in case upload_error A of
                      Some m \<Rightarrow> console_log [''Failed to upload signed PDF:'', m] w2
                    | None \<Rightarrow>
                        db_update_letter (path_update_error A) (ident l)
                          [(''signed_pdf_path'', path)] w2))
      else w)"

definition first_truthy :: "string option \<Rightarrow> string option \<Rightarrow> string \<Rightarrow> string" where
  "first_truthy a b d = (if present a then the a else if present b then the b else d)"

text \<open>
  Lines 172-224: on \<open>Completed\<close> for a letter with a client, mark the client executed and,
  when a Slack URL is configured, post one notification. The notice names the client as
  the \<open>clients\<close> table answers (lines 189-218); the model keeps the interpolated values
  of the posted body, not its block layout.
\<close>

definition compose_notice :: "outcomes \<Rightarrow> string \<Rightarrow> client list \<Rightarrow> slack_message" where
  "compose_notice A cid rows =
     (let found = (if client_select_error A then []
                   else take 1 (filter (\<lambda>c. client_ident c = cid) rows));
          clientName = (case found of
                          [] \<Rightarrow> ''Unknown''
                        | c # cs \<Rightarrow> first_truthy (entity_name c) (contact_name c) ''Unknown'');
          matterType = (case found of
                          [] \<Rightarrow> []
                        | c # cs \<Rightarrow> first_truthy (matter_type c) None [])
      in \<lparr>slack_text = ''Engagement letter signed by '' @ clientName,
          slack_client = clientName, slack_matter = matterType, slack_signed = today A\<rparr>)"

definition notify_slack :: "env \<Rightarrow> outcomes \<Rightarrow> string \<Rightarrow> world \<Rightarrow> world" where
  "notify_slack E A cid w =
     (if present (SLACK_WEBHOOK_URL E) then
        (let w1 = emit (SelectClient cid) w;
             w2 = emit (SlackPost (the (SLACK_WEBHOOK_URL E))
                          (compose_notice A cid (clients w1))) w1
         in case slack_throws A of
              Some m \<Rightarrow> console_log [''Slack notification failed:'', m] w2
            | None \<Rightarrow> w2)
      else w)"

definition update_client :: "env \<Rightarrow> outcomes \<Rightarrow> letter \<Rightarrow> world \<Rightarrow> world" where
  "update_client E A l w =
     (if present (client_id l) then
        (let cid = the (client_id l);
             w1 = db_update_client (client_error A) cid
                    [(''status'', ''Executed''), (''letter_executed'', today A)] w;
             w2 = (case client_error A of
                     Some m \<Rightarrow> console_log [''Failed to update client status:'', m] w1
                   | None \<Rightarrow> w1)
         in notify_slack E A cid w2)
      else w)"

text \<open>Lines 102-228: a classified event for a document id.\<close>

definition reconcile :: "env \<Rightarrow> outcomes \<Rightarrow> string \<Rightarrow> string \<Rightarrow> string \<Rightarrow> world \<Rightarrow> response \<times> world" where
  "reconcile E A eventType esignStatus documentId w =
     (let w1 = emit (SelectLetterByDocument documentId) w;
          found = (if find_error A then []
                   else take 1 (filter (\<lambda>r. boldsign_document_id r = Some documentId) (letters w1)))
      in case found of
           [] \<Rightarrow>
             (json_response 200 [(''ok'', JBool True), (''message'', JStr ''Document not found in system'')],
              console_log [''No engagement letter found for BoldSign document:'', documentId] w1)
         | l # ls \<Rightarrow>
             (let updateData = [(''esign_status'', esignStatus)] @
                     (if eventType = ''Completed'' then [(''approval_status'', ''Executed'')] else []);
                  w2 = db_update_letter (update_error A) (ident l) updateData w1;
                  w3 = (case update_error A of
                          Some m \<Rightarrow> console_log [''Failed to update esign_status:'', m] w2
                        | None \<Rightarrow> w2);
                  w4 = (if eventType = ''Completed'' then store_signed_pdf E A documentId l w3 else w3);
                  w5 = (if eventType = ''Completed'' then update_client E A l w4 else w4)
              in (json_response 200 [(''ok'', JBool True), (''status'', JStr esignStatus)], w5)))"

text \<open>The \<open>catch\<close> of the webhook handler: log and answer 500 with the message.\<close>

definition webhook_error :: "string \<Rightarrow> world \<Rightarrow> response \<times> world" where
  "webhook_error m w = (json_response 500 [(''error'', JStr m)], console_log [''Webhook error:'', m] w)"

text \<open>
  Lines 78-112: read the event type and the document id from the parsed payload. The
  query filter \<open>.eq('boldsign_document_id', documentId)\<close> interpolates the document id
  into a template literal before any call is made; where that coercion throws, the error
  reaches the \<open>catch\<close>.
\<close>

definition payload_eventType :: "json \<Rightarrow> json option" where
  "payload_eventType payload =
     js_or (opt_chain (get_prop payload ''event'') ''eventType'') (get_prop payload ''eventType'')"

definition payload_documentId :: "json \<Rightarrow> json option" where
  "payload_documentId payload =
     js_or (opt_chain (opt_chain (get_prop payload ''event'') ''document'') ''documentId'')
           (get_prop payload ''documentId'')"

definition dispatch :: "env \<Rightarrow> outcomes \<Rightarrow> json \<Rightarrow> world \<Rightarrow> response \<times> world" where
  "dispatch E A payload w =
     (let eventType = payload_eventType payload;
          documentId = payload_documentId payload
      in if \<not> truthy eventType \<or> \<not> truthy documentId then
           (json_response 200 [(''ok'', JBool True), (''message'', JStr ''Acknowledged'')], w)
         else
           (case eventType of
              Some (JStr ev) \<Rightarrow>
                (if ev \<in> set HANDLED_EVENTS then
                   (case mapEventToStatus ev of
                      None \<Rightarrow> (json_response 200 [(''ok'', JBool True)], w)
                    | Some esignStatus \<Rightarrow>
                        (case js_String (the documentId) of
                           None \<Rightarrow> webhook_error ''Cannot convert object to primitive value'' w
                         | Some d \<Rightarrow> reconcile E A ev esignStatus d w))
                 else (json_response 200 [(''ok'', JBool True), (''message'', JStr ''Event not handled'')], w))
            | _ \<Rightarrow> (json_response 200 [(''ok'', JBool True), (''message'', JStr ''Event not handled'')], w)))"

text \<open>Lines 78-100 after the signature check: parse the body; a thrown error reaches the
  \<open>catch\<close>. Reading \<open>payload.event\<close> of \<open>null\<close> throws.\<close>

definition parse_and_dispatch :: "platform \<Rightarrow> env \<Rightarrow> outcomes \<Rightarrow> string \<Rightarrow> world \<Rightarrow> response \<times> world" where
  "parse_and_dispatch P E A raw w =
     (case JSON_parse P raw of
        Inl m \<Rightarrow> webhook_error m w
      | Inr payload \<Rightarrow>
          (if payload = JNull then
             webhook_error ''Cannot read properties of null (reading 'event')'' w
           else dispatch E A payload w))"

definition boldsign_webhook :: "platform \<Rightarrow> env \<Rightarrow> outcomes \<Rightarrow> request \<Rightarrow> world \<Rightarrow> response \<times> world" where
  "boldsign_webhook P E A req w =
     (if http_method req = ''OPTIONS'' then (\<lparr>code = 200, content = Text ''ok''\<rparr>, w)
      else if http_method req \<noteq> ''POST'' then
        (json_response 405 [(''error'', JStr ''Method not allowed'')], w)
      else if present (BOLDSIGN_WEBHOOK_SECRET E) then
        (let signature = (if present (signature_header req) then the (signature_header req) else [])
         in if signature = [] then
              (json_response 401 [(''error'', JStr ''Missing webhook signature'')], w)
            else if \<not> verifyWebhookSignature P (rawBody P req) signature (the (BOLDSIGN_WEBHOOK_SECRET E)) then
              (json_response 401 [(''error'', JStr ''Invalid webhook signature'')], w)
            else parse_and_dispatch P E A (rawBody P req) w)
      else parse_and_dispatch P E A (rawBody P req) w)"

section \<open>fetch-signed-document\<close>

text \<open>How a stretch of a handler ends: with a response, with a thrown error that the
  handler's \<open>catch\<close> turns into a response, or with a value to go on with.\<close>

datatype 'a step = Return response | Throw string | Next 'a

definition endsWith :: "string \<Rightarrow> string \<Rightarrow> bool" where
  "endsWith s suffix = (length suffix \<le> length s \<and> drop (length s - length suffix) s = suffix)"

text \<open>
  Lines 14-53, the same in both versions of the handler: the caller must present a
  credential that resolves to a user of the firm's domain, and the JSON body must carry
  a string \<open>letterId\<close>. Destructuring a \<open>null\<close> body throws.
\<close>

definition read_letterId :: "platform \<Rightarrow> outcomes \<Rightarrow> request \<Rightarrow> world \<Rightarrow> string step \<times> world" where
  "read_letterId P A req w =
     (if \<not> present (authorization req) then
        (Return (json_response 401 [(''error'', JStr ''Missing authorization'')]), w)
      else
        (let w1 = emit (AuthGetUser (the (authorization req))) w
         in case auth_user A of
              None \<Rightarrow> (Return (json_response 401 [(''error'', JStr ''Unauthorized'')]), w1)
            | Some u \<Rightarrow>
                (if \<not> (case email u of None \<Rightarrow> False | Some e \<Rightarrow> endsWith e ''@margolispllc.com'') then
                   (Return (json_response 403 [(''error'', JStr ''Forbidden'')]), w1)
                 else
                   (case JSON_parse P (rawBody P req) of
                      Inl m \<Rightarrow> (Throw m, w1)
                    | Inr b \<Rightarrow>
                        (if b = JNull then
                           (Throw ''Cannot destructure property 'letterId' of 'body' as it is null.'', w1)
                         else
                           (case get_prop b ''letterId'' of
                              Some (JStr letterId) \<Rightarrow>
                                (if letterId = [] then
                                   (Return (json_response 400 [(''error'', JStr ''Missing letterId'')]), w1)
                                 else (Next letterId, w1))
                            | _ \<Rightarrow>
                                (Return (json_response 400 [(''error'', JStr ''Missing letterId'')]), w1)))))))"

text \<open>\<open>.eq('id', letterId).single()\<close>: an error unless exactly one row answers.\<close>

definition single_row_error :: string where
  "single_row_error = ''JSON object requested, multiple (or no) rows returned''"

definition select_single :: "string option \<Rightarrow> letter list \<Rightarrow> string + letter" where
  "select_single err rows =
     (case err of
        Some m \<Rightarrow> Inl m
      | None \<Rightarrow> (case rows of [l] \<Rightarrow> Inr l | _ \<Rightarrow> Inl single_row_error))"

text \<open>
  \<open>supabase/functions/fetch-signed-document/index.ts\<close>, lines 91-141: with an API key,
  download the signed PDF, upload it under the letter's key and store the path. A thrown
  download reaches the handler's \<open>catch\<close>.
\<close>

definition download_and_store :: "env \<Rightarrow> outcomes \<Rightarrow> letter \<Rightarrow> world \<Rightarrow> response \<times> world" where
  "download_and_store E A l w =
     (if \<not> present (BOLDSIGN_API_KEY E) then
        (json_response 500 [(''error'', JStr ''BoldSign API key not configured'')], w)
      else
        (let w1 = emit (Download (the (boldsign_document_id l))) w
         in case download A of
              DlThrows m \<Rightarrow> (json_response 500 [(''error'', JStr m)], w1)
            | DlFail st txt \<Rightarrow>
                (json_response 502 [(''error'', JStr ''Failed to download from BoldSign''),
                                    (''detail'', JStr txt)], w1)
            | DlOk pdfBytes \<Rightarrow>
                (let path = storagePath (client_id l) (ident l);
                     w2 = storage_upload (upload_error A) path pdfBytes w1
                 in case upload_error A of
                      Some m \<Rightarrow>
                        (json_response 500 [(''error'', JStr ''Failed to store PDF''),
                                            (''detail'', JStr m)], w2)
                    | None \<Rightarrow>
                        (json_response 200 [(''ok'', JBool True), (''path'', JStr path)],
                         db_update_letter (path_update_error A) (ident l)
                           [(''signed_pdf_path'', path)] w2))))"

text \<open>
  Lines 55-89 of the same file: the letter is read with the caller's credentials; a
  stored path is answered at once; the download needs a document id and a signed or
  completed letter.
\<close>

definition retrieve :: "env \<Rightarrow> outcomes \<Rightarrow> string \<Rightarrow> world \<Rightarrow> response \<times> world" where
  "retrieve E A letterId w =
     (let w1 = emit (SelectLetterById letterId) w
      in case select_single (letter_error A)
                (filter (\<lambda>r. ident r = letterId \<and> rls_visible A r) (letters w1)) of
           Inl m \<Rightarrow> (json_response 404 [(''error'', JStr ''Letter not found'')], w1)
         | Inr l \<Rightarrow>
             (if present (signed_pdf_path l) then
                (json_response 200 [(''ok'', JBool True), (''path'', JStr (the (signed_pdf_path l))),
                                    (''alreadyStored'', JBool True)], w1)
              else if \<not> present (boldsign_document_id l) then
                (json_response 400 [(''error'', JStr ''No BoldSign document linked to this letter'')], w1)
              else if esign_status l \<noteq> Some ''completed'' \<and> esign_status l \<noteq> Some ''signed'' then
                (json_response 400 [(''error'', JStr ''Document has not been signed yet'')], w1)
              else download_and_store E A l w1))"

definition fetch_signed_document :: "platform \<Rightarrow> env \<Rightarrow> outcomes \<Rightarrow> request \<Rightarrow> world \<Rightarrow> response \<times> world" where
  "fetch_signed_document P E A req w =
     (if http_method req = ''OPTIONS'' then (\<lparr>code = 200, content = Text ''ok''\<rparr>, w)
      else
        (case read_letterId P A req w of
           (Return r, w1) \<Rightarrow> (r, w1)
         | (Throw m, w1) \<Rightarrow> (json_response 500 [(''error'', JStr m)], w1)
         | (Next letterId, w1) \<Rightarrow> retrieve E A letterId w1))"

text \<open>
  The second version of the handler (the source file of 178 lines), lines 91-170: as
  above, but an empty download is refused, the stored path comes with a corrective
  \<open>completed\<close> status, and each step is logged.
\<close>

definition download_and_store_service :: "env \<Rightarrow> outcomes \<Rightarrow> letter \<Rightarrow> world \<Rightarrow> response \<times> world" where
  "download_and_store_service E A l w =
     (if \<not> present (BOLDSIGN_API_KEY E) then
        (json_response 500 [(''error'', JStr ''BoldSign API key not configured'')], w)
      else
        (let documentId = the (boldsign_document_id l);
             w1 = emit (Download documentId)
                    (console_log [''Downloading signed PDF from BoldSign: documentId='' @ documentId
                                  @ '', esign_status='' @ interp (esign_status l)] w)
         in case download A of
              DlThrows m \<Rightarrow>
                (json_response 500 [(''error'', JStr m)],
                 console_log [''fetch-signed-document error:'', m] w1)
            | DlFail st txt \<Rightarrow>
                (json_response 502
                   [(''error'', JStr ''Failed to download from BoldSign''), (''detail'', JStr txt),
                    (''boldsignStatus'', JNum (decimal st)), (''documentId'', JStr documentId),
                    (''esignStatus'', (case esign_status l of None \<Rightarrow> JNull | Some e \<Rightarrow> JStr e))],
                 console_log [''BoldSign download failed: status='' @ decimal st @ '', body='' @ txt] w1)
            | DlOk pdfBytes \<Rightarrow>
                (if pdfBytes = [] then
                   (json_response 502 [(''error'', JStr ''BoldSign returned empty response'')], w1)
                 else
                   (let path = storagePath (client_id l) (ident l);
                        w2 = storage_upload (upload_error A) path pdfBytes
                               (console_log [''Downloaded '' @ decimal (length pdfBytes)
                                             @ '' bytes from BoldSign (content-type: ''
                                             @ (if present (content_type A) then the (content_type A) else [])
                                             @ '')''] w1)
                    in case upload_error A of
                         Some m \<Rightarrow>
                           (json_response 500 [(''error'', JStr ''Failed to store PDF''),
                                               (''detail'', JStr m)],
                            console_log [''Storage upload failed:'', m] w2)
                       | None \<Rightarrow>
                           (let updateData = [(''signed_pdf_path'', path)] @
                                  (if esign_status l \<noteq> Some ''completed''
                                   then [(''esign_status'', ''completed'')] else []);
                                w3 = db_update_letter (path_update_error A) (ident l) updateData w2;
                                w4 = (case path_update_error A of
                                        Some m \<Rightarrow> console_log [''Letter record update failed:'', m] w3
                                      | None \<Rightarrow> w3)
                            in (json_response 200 [(''ok'', JBool True), (''path'', JStr path)],
                                console_log [''Signed PDF stored at: '' @ path] w4))))))"

text \<open>
  Lines 55-89 of the second version: the letter is read with the service role, and any
  status is accepted once a document id is there.
\<close>

definition retrieve_service :: "env \<Rightarrow> outcomes \<Rightarrow> string \<Rightarrow> world \<Rightarrow> response \<times> world" where
  "retrieve_service E A letterId w =
     (let w1 = emit (SelectLetterById letterId) w
      in case select_single (letter_error A) (filter (\<lambda>r. ident r = letterId) (letters w1)) of
           Inl m \<Rightarrow>
             (json_response 404 [(''error'', JStr ''Letter not found''), (''detail'', JStr m)], w1)
         | Inr l \<Rightarrow>
             (if present (signed_pdf_path l) then
                (json_response 200 [(''ok'', JBool True), (''path'', JStr (the (signed_pdf_path l))),
                                    (''alreadyStored'', JBool True)], w1)
              else if \<not> present (boldsign_document_id l) then
                (json_response 400
                   [(''error'', JStr ''No BoldSign document linked to this letter''),
                    (''detail'', JStr (''Letter '' @ letterId @ '' has esign_status='' @ [CHR 0x22]
                        @ interp (esign_status l) @ [CHR 0x22]
                        @ '' but boldsign_document_id is null. The document ID may not have been saved when the letter was sent for e-signature.''))],
                 w1)
              else download_and_store_service E A l w1))"

definition fetch_signed_document_service :: "platform \<Rightarrow> env \<Rightarrow> outcomes \<Rightarrow> request \<Rightarrow> world \<Rightarrow> response \<times> world" where
  "fetch_signed_document_service P E A req w =
     (if http_method req = ''OPTIONS'' then (\<lparr>code = 200, content = Text ''ok''\<rparr>, w)
      else
        (case read_letterId P A req w of
           (Return r, w1) \<Rightarrow> (r, w1)
         | (Throw m, w1) \<Rightarrow>
             (json_response 500 [(''error'', JStr m)], console_log [''fetch-signed-document error:'', m] w1)
         | (Next letterId, w1) \<Rightarrow> retrieve_service E A letterId w1))"

section \<open>Vocabulary of the properties\<close>

text \<open>A delivery that passes the method check and the signature check (lines 48-76).\<close>

definition accepted :: "platform \<Rightarrow> env \<Rightarrow> request \<Rightarrow> bool" where
  "accepted P E req =
     (http_method req = ''POST'' \<and>
      (present (BOLDSIGN_WEBHOOK_SECRET E) \<longrightarrow>
         present (signature_header req) \<and>
         signature_header req =
           Some (hmac_sha256_base64 P (utf8_encode P (the (BOLDSIGN_WEBHOOK_SECRET E)))
                   (utf8_encode P (rawBody P req)))))"

text \<open>An accepted delivery that carries the handled event \<open>ev\<close> for the document \<open>d\<close>.\<close>

definition valid_event :: "platform \<Rightarrow> env \<Rightarrow> request \<Rightarrow> string \<Rightarrow> string \<Rightarrow> bool" where
  "valid_event P E req ev d =
     (accepted P E req \<and>
      (case JSON_parse P (rawBody P req) of
         Inl m \<Rightarrow> False
       | Inr payload \<Rightarrow>
           payload \<noteq> JNull \<and> payload_eventType payload = Some (JStr ev) \<and>
           ev \<in> set HANDLED_EVENTS \<and> truthy (payload_documentId payload) \<and>
           js_String (the (payload_documentId payload)) = Some d))"

text \<open>
  A payload that passes the guards of lines 82-100 with a document id that cannot be
  converted to a string: building the query filter of line 111 throws.
\<close>

definition filter_throws :: "json \<Rightarrow> bool" where
  "filter_throws payload =
     (truthy (payload_eventType payload) \<and> truthy (payload_documentId payload) \<and>
      payload_eventType payload \<in> (\<lambda>ev. Some (JStr ev)) ` set HANDLED_EVENTS \<and>
      js_String (the (payload_documentId payload)) = None)"

text \<open>The row the webhook's lookup by document id answers.\<close>

definition known_letter :: "world \<Rightarrow> string \<Rightarrow> letter \<Rightarrow> bool" where
  "known_letter w d l =
     (take 1 (filter (\<lambda>r. boldsign_document_id r = Some d) (letters w)) = [l])"

text \<open>The key columns of a row, which neither the webhook handler nor the on-demand
  handlers write.\<close>

definition same_keys :: "letter \<Rightarrow> letter \<Rightarrow> bool" where
  "same_keys r r' = (ident r' = ident r \<and> client_id r' = client_id r \<and>
                     boldsign_document_id r' = boldsign_document_id r)"

text \<open>
  What one request may do to a row of \<open>engagement_letters\<close>: keep its keys; keep its
  status or set it to \<open>st\<close>; keep its stored path or set it to the key derived from a
  row with the same id.
\<close>

definition row_step :: "letter list \<Rightarrow> string option \<Rightarrow> letter \<Rightarrow> letter \<Rightarrow> bool" where
  "row_step rows st r r' =
     (same_keys r r' \<and>
      (esign_status r' = esign_status r \<or> (st \<noteq> None \<and> esign_status r' = st)) \<and>
      (signed_pdf_path r' = signed_pdf_path r \<or>
       (\<exists>l\<in>set rows. ident l = ident r \<and>
           signed_pdf_path r' = Some (storagePath (client_id l) (ident l)))))"

text \<open>The outbound calls a request added to the record.\<close>

definition new_calls :: "world \<Rightarrow> world \<Rightarrow> effect list" where
  "new_calls w w' = drop (length (calls w)) (calls w')"

fun is_slack_post :: "effect \<Rightarrow> bool" where
  "is_slack_post (SlackPost url msg) = True"
| "is_slack_post e = False"

text \<open>
  A request to the on-demand endpoint that passes lines 14-53: a credential of a user of
  the firm's domain and a JSON body with the string \<open>letterId = i\<close>.
\<close>

definition admitted :: "platform \<Rightarrow> outcomes \<Rightarrow> request \<Rightarrow> string \<Rightarrow> bool" where
  "admitted P A req i =
     (http_method req \<noteq> ''OPTIONS'' \<and> present (authorization req) \<and>
      (case auth_user A of
         None \<Rightarrow> False
       | Some u \<Rightarrow> (case email u of None \<Rightarrow> False | Some e \<Rightarrow> endsWith e ''@margolispllc.com'')) \<and>
      (case JSON_parse P (rawBody P req) of
         Inl m \<Rightarrow> False
       | Inr b \<Rightarrow> b \<noteq> JNull \<and> get_prop b ''letterId'' = Some (JStr i) \<and> i \<noteq> []))"

text \<open>The world once \<open>getUser\<close> has been called.\<close>

definition signed_in :: "request \<Rightarrow> world \<Rightarrow> world" where
  "signed_in req w = emit (AuthGetUser (the (authorization req))) w"

text \<open>The two versions of the on-demand handler, and the letter each one's query by id
  answers: the first reads with the caller's credentials, the second with the service
  role.\<close>

datatype variant = Caller | Service

definition fetch :: "variant \<Rightarrow> platform \<Rightarrow> env \<Rightarrow> outcomes \<Rightarrow> request \<Rightarrow> world \<Rightarrow> response \<times> world" where
  "fetch v = (case v of Caller \<Rightarrow> fetch_signed_document | Service \<Rightarrow> fetch_signed_document_service)"

definition found_letter :: "variant \<Rightarrow> outcomes \<Rightarrow> world \<Rightarrow> string \<Rightarrow> letter \<Rightarrow> bool" where
  "found_letter v A w i l =
     (letter_error A = None \<and>
      filter (\<lambda>r. ident r = i \<and> (v = Caller \<longrightarrow> rls_visible A r)) (letters w) = [l])"

fun is_upload :: "effect \<Rightarrow> bool" where
  "is_upload (Upload p b) = True"
| "is_upload e = False"



fun keyed_upload :: "letter list \<Rightarrow> effect \<Rightarrow> bool" where
  "keyed_upload rows (Upload p b) = (\<exists>l\<in>set rows. p = storagePath (client_id l) (ident l))"
| "keyed_upload rows e = True"








section \<open>A concrete deployment for the examples\<close>

text \<open>
  The theorems below hold for every platform, environment and outcome. The examples run
  the handlers on one deployment: ASCII text for UTF-8, a stand-in keyed function for the
  HMAC, a parser that knows the bodies used here, one letter \<open>L1\<close> of client \<open>C1\<close>
  sent as document \<open>doc-1\<close>, and outbound calls that all succeed.
\<close>

definition ascii_bytes :: "string \<Rightarrow> bytes" where
  "ascii_bytes s = map (\<lambda>c. of_nat (of_char c)) s"

definition ascii_text :: "bytes \<Rightarrow> string" where
  "ascii_text bs = map (\<lambda>b. char_of (unat b)) bs"

definition quoted :: "string \<Rightarrow> string" where
  "quoted s = [CHR 0x22] @ s @ [CHR 0x22]"

definition event_body :: "string \<Rightarrow> string \<Rightarrow> string" where
  "event_body ev d =
     ''{'' @ quoted ''event'' @ '':{'' @ quoted ''eventType'' @ '':'' @ quoted ev @ '','' @
     quoted ''document'' @ '':{'' @ quoted ''documentId'' @ '':'' @ quoted d @ ''}}}''"

definition event_json :: "string \<Rightarrow> string \<Rightarrow> json" where
  "event_json ev d =
     JObj [(''event'', JObj [(''eventType'', JStr ev),
                             (''document'', JObj [(''documentId'', JStr d)])])]"

definition letter_body :: "string \<Rightarrow> string" where
  "letter_body i = ''{'' @ quoted ''letterId'' @ '':'' @ quoted i @ ''}''"

text \<open>An event whose document id is an object with an own key \<open>toString\<close>.\<close>

definition odd_body :: string where
  "odd_body =
     ''{'' @ quoted ''eventType'' @ '':'' @ quoted ''Completed'' @ '','' @
     quoted ''documentId'' @ '':{'' @ quoted ''toString'' @ '':1}}''"

definition odd_json :: json where
  "odd_json = JObj [(''eventType'', JStr ''Completed''),
                    (''documentId'', JObj [(''toString'', JNum ''1'')])]"

definition demo_parse :: "string \<Rightarrow> string + json" where
  "demo_parse s =
     (if s = ''null'' then Inr JNull
      else if s = odd_body then Inr odd_json
      else if s = letter_body ''L1'' then Inr (JObj [(''letterId'', JStr ''L1'')])
      else if s = event_body ''Sent'' ''doc-1'' then Inr (event_json ''Sent'' ''doc-1'')
      else if s = event_body ''Viewed'' ''doc-1'' then Inr (event_json ''Viewed'' ''doc-1'')
      else if s = event_body ''Completed'' ''doc-1'' then Inr (event_json ''Completed'' ''doc-1'')
      else if s = event_body ''Reassigned'' ''doc-1'' then Inr (event_json ''Reassigned'' ''doc-1'')
      else Inl ''Unexpected token in JSON'')"

definition demo_platform :: platform where
  "demo_platform = \<lparr>utf8_decode = ascii_text, utf8_encode = ascii_bytes,
                    hmac_sha256_base64 =
                      (\<lambda>k m. ''mac('' @ ascii_text k @ '','' @ ascii_text m @ '')''),
                    JSON_parse = demo_parse\<rparr>"

definition demo_env :: env where
  "demo_env = \<lparr>BOLDSIGN_WEBHOOK_SECRET = Some ''s3cret'', BOLDSIGN_API_KEY = Some ''key'',
               SLACK_WEBHOOK_URL = Some ''https://hooks.slack.com/services/T''\<rparr>"

definition all_ok :: outcomes where
  "all_ok = \<lparr>find_error = False, update_error = None,
             download = DlOk [0x25, 0x50, 0x44, 0x46], content_type = Some ''application/pdf'',
             upload_error = None, path_update_error = None, client_error = None,
             client_select_error = False, slack_throws = None, today = ''2026-02-16'',
             auth_user = Some \<lparr>email = Some ''ana@margolispllc.com''\<rparr>, letter_error = None,
             rls_visible = (\<lambda>r. True)\<rparr>"

definition L1 :: letter where
  "L1 = \<lparr>ident = ''L1'', client_id = Some ''C1'', boldsign_document_id = Some ''doc-1'',
         esign_status = Some ''sent'', approval_status = None, signed_pdf_path = None\<rparr>"

definition C1 :: client where
  "C1 = \<lparr>client_ident = ''C1'', status = Some ''Sent'', letter_executed = None,
         entity_name = Some ''Acme LLC'', contact_name = None, matter_type = Some ''Formation''\<rparr>"

definition demo_world :: world where
  "demo_world = \<lparr>letters = [L1], clients = [C1], storage = [], calls = [], console = []\<rparr>"

text \<open>A POST of a text, signed under the secret; a signed delivery of an event for
  \<open>doc-1\<close>, and the same body under a forged signature.\<close>

definition signed_post :: "string \<Rightarrow> request" where
  "signed_post b = \<lparr>http_method = ''POST'',
                    signature_header = Some (''mac(s3cret,'' @ b @ '')''),
                    authorization = None, wire_body = ascii_bytes b\<rparr>"

definition delivery :: "string \<Rightarrow> request" where
  "delivery ev = signed_post (event_body ev ''doc-1'')"

definition forged :: "string \<Rightarrow> request" where
  "forged ev = (delivery ev)\<lparr>signature_header := Some ''Zm9yZ2Vk''\<rparr>"

definition fetch_request :: request where
  "fetch_request = \<lparr>http_method = ''POST'', signature_header = None,
                    authorization = Some ''Bearer token'',
                    wire_body = ascii_bytes (letter_body ''L1'')\<rparr>"

text \<open>The letter after completion, with its signed PDF stored.\<close>

definition L1_completed :: letter where
  "L1_completed = L1\<lparr>esign_status := Some ''completed'', approval_status := Some ''Executed'',
                      signed_pdf_path := Some ''C1/L1_signed.pdf''\<rparr>"

definition completed_world :: world where
  "completed_world = demo_world\<lparr>letters := [L1_completed],
                                storage := [(''C1/L1_signed.pdf'', [0x25, 0x50, 0x44, 0x46])]\<rparr>"

text \<open>A correctly signed delivery whose body is not JSON.\<close>

definition malformed :: request where
  "malformed = signed_post ''{''"

text \<open>Signed deliveries of the body \<open>null\<close> and of the event whose document id is an
  object.\<close>

definition null_delivery :: request where
  "null_delivery = signed_post ''null''"

definition odd_delivery :: request where
  "odd_delivery = signed_post odd_body"

text \<open>
  The \<open>Completed\<close> delivery with a byte order mark before the body: its signature is
  the HMAC of the body without the mark, not of the bytes that arrived.
\<close>

definition bom_delivery :: request where
  "bom_delivery = (delivery ''Completed'')
     \<lparr>wire_body := [0xEF, 0xBB, 0xBF] @ ascii_bytes (event_body ''Completed'' ''doc-1'')\<rparr>"

text \<open>The world after a \<open>Sent\<close> and then a \<open>Completed\<close> delivery.\<close>

definition after_sent_completed :: world where
  "after_sent_completed =
     snd (boldsign_webhook demo_platform demo_env all_ok (delivery ''Completed'')
       (snd (boldsign_webhook demo_platform demo_env all_ok (delivery ''Sent'') demo_world)))"

text \<open>A deployment without the provider's API key, and outbound calls that fail.\<close>

definition no_key_env :: env where
  "no_key_env = demo_env\<lparr>BOLDSIGN_API_KEY := None\<rparr>"

definition download_and_slack_fail :: outcomes where
  "download_and_slack_fail = all_ok\<lparr>download := DlFail 503 ''unavailable'',
                                     slack_throws := Some ''connection refused''\<rparr>"

definition status_write_fails :: outcomes where
  "status_write_fails = all_ok\<lparr>update_error := Some ''connection timeout''\<rparr>"

text \<open>A letter that was never linked to a provider document, and a signed letter whose
  PDF has not been stored yet.\<close>

definition L1_unlinked :: letter where
  "L1_unlinked = L1\<lparr>boldsign_document_id := None, esign_status := None\<rparr>"

definition unlinked_world :: world where
  "unlinked_world = demo_world\<lparr>letters := [L1_unlinked]\<rparr>"

definition L1_signed :: letter where
  "L1_signed = L1\<lparr>esign_status := Some ''signed''\<rparr>"

definition signed_world :: world where
  "signed_world = demo_world\<lparr>letters := [L1_signed]\<rparr>"

section \<open>Helper lemmas\<close>

subsection \<open>The example deployment\<close>

lemma ascii_roundtrip [simp]: "ascii_text (ascii_bytes s) = s"
proof -
  have "char_of (unat (of_nat (of_char c) :: 8 word)) = c" for c :: char
    by (simp add: unat_of_nat)
  then show ?thesis by (simp add: ascii_text_def ascii_bytes_def o_def)
qed

lemma ascii_text_Cons [simp]: "ascii_text (b # bs) = char_of (unat b) # ascii_text bs"
  by (simp add: ascii_text_def)

lemma ascii_bytes_no_bom [simp]:
  "strip_bom (ascii_bytes (CHR ''{'' # s)) = ascii_bytes (CHR ''{'' # s)"
  "strip_bom (ascii_bytes (CHR ''n'' # s)) = ascii_bytes (CHR ''n'' # s)"
  by (cases s; cases "tl s"; simp add: strip_bom_def ascii_bytes_def)+

lemma strip_bom_marked [simp]: "strip_bom (0xEF # 0xBB # 0xBF # bs) = bs"
  by (simp add: strip_bom_def)

lemma demo_platform_simps [simp]:
  "utf8_decode demo_platform = ascii_text"
  "utf8_encode demo_platform = ascii_bytes"
  "hmac_sha256_base64 demo_platform k m = ''mac('' @ ascii_text k @ '','' @ ascii_text m @ '')''"
  "JSON_parse demo_platform = demo_parse"
  by (simp_all add: demo_platform_def)

lemma signed_post_simps [simp]:
  "http_method (signed_post (CHR ''{'' # s)) = ''POST''"
  "signature_header (signed_post (CHR ''{'' # s)) = Some (''mac(s3cret,'' @ CHR ''{'' # s @ '')'')"
  "authorization (signed_post (CHR ''{'' # s)) = None"
  "rawBody demo_platform (signed_post (CHR ''{'' # s)) = CHR ''{'' # s"
  "http_method (signed_post ''null'') = ''POST''"
  "signature_header (signed_post ''null'') = Some ''mac(s3cret,null)''"
  "rawBody demo_platform (signed_post ''null'') = ''null''"
  by (simp_all add: signed_post_def rawBody_def)

lemma event_body_brace: "event_body ev d = CHR ''{'' # tl (event_body ev d)"
  by (simp add: event_body_def)

lemma delivery_simps [simp]:
  "http_method (delivery ev) = ''POST''"
  "signature_header (delivery ev) = Some (''mac(s3cret,'' @ event_body ev ''doc-1'' @ '')'')"
  "authorization (delivery ev) = None"
  "rawBody demo_platform (delivery ev) = event_body ev ''doc-1''"
  "http_method (forged ev) = ''POST''"
  "signature_header (forged ev) = Some ''Zm9yZ2Vk''"
  "rawBody demo_platform (forged ev) = event_body ev ''doc-1''"
  "http_method bom_delivery = ''POST''"
  "signature_header bom_delivery =
     Some (''mac(s3cret,'' @ event_body ''Completed'' ''doc-1'' @ '')'')"
  "rawBody demo_platform bom_delivery = event_body ''Completed'' ''doc-1''"
  "wire_body bom_delivery = [0xEF, 0xBB, 0xBF] @ ascii_bytes (event_body ''Completed'' ''doc-1'')"
  by (simp_all add: delivery_def forged_def bom_delivery_def signed_post_def rawBody_def
      event_body_def)

lemma malformed_simps [simp]:
  "http_method malformed = ''POST''"
  "signature_header malformed = Some ''mac(s3cret,{)''"
  "rawBody demo_platform malformed = ''{''"
  by (simp_all add: malformed_def)

lemma null_delivery_simps [simp]:
  "http_method null_delivery = ''POST''"
  "signature_header null_delivery = Some ''mac(s3cret,null)''"
  "rawBody demo_platform null_delivery = ''null''"
  by (simp_all add: null_delivery_def)

lemma odd_delivery_simps [simp]:
  "http_method odd_delivery = ''POST''"
  "signature_header odd_delivery = Some (''mac(s3cret,'' @ odd_body @ '')'')"
  "rawBody demo_platform odd_delivery = odd_body"
  by (simp_all add: odd_delivery_def odd_body_def)

lemma fetch_request_simps [simp]:
  "http_method fetch_request = ''POST''"
  "authorization fetch_request = Some ''Bearer token''"
  "rawBody demo_platform fetch_request = letter_body ''L1''"
  by (simp_all add: fetch_request_def rawBody_def letter_body_def)

lemmas demo_defs = demo_env_def all_ok_def L1_def C1_def demo_world_def
  demo_parse_def event_body_def event_json_def odd_body_def odd_json_def
  letter_body_def quoted_def L1_completed_def completed_world_def no_key_env_def
  download_and_slack_fail_def status_write_fails_def L1_unlinked_def unlinked_world_def
  L1_signed_def signed_world_def

lemmas fetch_defs = fetch_def fetch_signed_document_def fetch_signed_document_service_def
  read_letterId_def retrieve_def retrieve_service_def download_and_store_def
  download_and_store_service_def select_single_def endsWith_def storagePath_def interp_def
  db_update_letter_def storage_upload_def emit_def console_log_def update_letter_rows_def
  json_response_def

lemmas webhook_defs = boldsign_webhook_def parse_and_dispatch_def dispatch_def reconcile_def
  store_signed_pdf_def update_client_def notify_slack_def compose_notice_def webhook_error_def
  verifyWebhookSignature_def payload_eventType_def payload_documentId_def js_or_def
  HANDLED_EVENTS_def mapEventToStatus_def storagePath_def interp_def first_truthy_def
  db_update_letter_def db_update_client_def storage_upload_def emit_def console_log_def
  update_letter_rows_def update_client_rows_def json_response_def

lemma webhook_accepted:
  "accepted P E req \<Longrightarrow> boldsign_webhook P E A req w = parse_and_dispatch P E A (rawBody P req) w"
  by (auto simp: accepted_def boldsign_webhook_def verifyWebhookSignature_def)

lemma handled_mapped: "ev \<in> set HANDLED_EVENTS \<Longrightarrow> \<exists>st. mapEventToStatus ev = Some st"
  by (auto simp: HANDLED_EVENTS_def mapEventToStatus_def)

lemma webhook_valid_event:
  assumes "valid_event P E req ev d"
  shows "boldsign_webhook P E A req w = reconcile E A ev (the (mapEventToStatus ev)) d w"
proof -
  from assms have acc: "accepted P E req" by (simp add: valid_event_def)
  from assms obtain payload where p: "JSON_parse P (rawBody P req) = Inr payload" "payload \<noteq> JNull"
    "payload_eventType payload = Some (JStr ev)" "ev \<in> set HANDLED_EVENTS"
    "truthy (payload_documentId payload)" "js_String (the (payload_documentId payload)) = Some d"
    by (auto simp: valid_event_def split: sum.splits)
  from p(4) obtain st where st: "mapEventToStatus ev = Some st" using handled_mapped by blast
  from p(4) have "ev \<noteq> []" by (auto simp: HANDLED_EVENTS_def)
  with p st show ?thesis
    by (simp add: webhook_accepted [OF acc] parse_and_dispatch_def dispatch_def)
qed

lemma letters_ops [simp]:
  "letters (emit e w) = letters w"
  "letters (console_log a w) = letters w"
  "letters (storage_upload err p b w) = letters w"
  "letters (db_update_client err i upd w) = letters w"
  "letters (db_update_letter err i upd w) =
     (case err of None \<Rightarrow> update_letter_rows i upd (letters w) | Some m \<Rightarrow> letters w)"
  by (auto simp: emit_def console_log_def storage_upload_def db_update_client_def db_update_letter_def
      Let_def split: option.splits)

lemma calls_ops [simp]:
  "calls (emit e w) = calls w @ [e]"
  "calls (console_log a w) = calls w"
  "calls (storage_upload err p b w) = calls w @ [Upload p b]"
  "calls (db_update_client err i upd w) = calls w @ [UpdateClient i upd]"
  "calls (db_update_letter err i upd w) = calls w @ [UpdateLetter i upd]"
  by (auto simp: emit_def console_log_def storage_upload_def db_update_client_def db_update_letter_def
      Let_def split: option.splits)

lemma console_ops [simp]:
  "console (emit e w) = console w"
  "console (console_log a w) = console w @ [a]"
  "console (storage_upload err p b w) = console w"
  "console (db_update_client err i upd w) = console w"
  "console (db_update_letter err i upd w) = console w"
  by (auto simp: emit_def console_log_def storage_upload_def db_update_client_def db_update_letter_def
      Let_def split: option.splits)

lemma clients_ops [simp]:
  "clients (emit e w) = clients w"
  "clients (console_log a w) = clients w"
  "clients (storage_upload err p b w) = clients w"
  "clients (db_update_letter err i upd w) = clients w"
  "clients (db_update_client err i upd w) =
     (case err of None \<Rightarrow> update_client_rows i upd (clients w) | Some m \<Rightarrow> clients w)"
  by (auto simp: emit_def console_log_def storage_upload_def db_update_client_def db_update_letter_def
      Let_def split: option.splits)

lemma letters_notify_slack [simp]: "letters (notify_slack E A cid w) = letters w"
  by (simp add: notify_slack_def Let_def split: option.splits list.splits)

lemma letters_update_client [simp]: "letters (update_client E A l w) = letters w"
  by (simp add: update_client_def Let_def split: option.splits)

lemma letters_store_signed_pdf:
  "letters (store_signed_pdf E A d l w) =
     (if present (BOLDSIGN_API_KEY E) \<and> (\<exists>b. download A = DlOk b) \<and> upload_error A = None
         \<and> path_update_error A = None
      then update_letter_rows (ident l) [(''signed_pdf_path'', storagePath (client_id l) (ident l))] (letters w)
      else letters w)"
  by (auto simp: store_signed_pdf_def Let_def split: option.splits dl_result.splits)

lemma fold_set_column_fixed [simp]:
  "ident (fold set_column upd r) = ident r"
  "client_id (fold set_column upd r) = client_id r"
  "boldsign_document_id (fold set_column upd r) = boldsign_document_id r"
  by (induction upd arbitrary: r; auto)+

lemma row_step_refl: "list_all2 (row_step rows st) xs xs"
  by (simp add: list_all2_same row_step_def same_keys_def)

lemma reconcile_rows:
  "list_all2 (row_step (letters w) (Some st)) (letters w) (letters (snd (reconcile E A ev st d w)))"
proof (cases "find_error A \<or> filter (\<lambda>r. boldsign_document_id r = Some d) (letters w) = []")
  case True
  then show ?thesis
    by (auto simp: reconcile_def Let_def row_step_refl)
next
  case False
  then obtain l ls where f: "filter (\<lambda>r. boldsign_document_id r = Some d) (letters w) = l # ls"
    by (cases "filter (\<lambda>r. boldsign_document_id r = Some d) (letters w)") auto
  then have "l \<in> set (filter (\<lambda>r. boldsign_document_id r = Some d) (letters w))" by simp
  then have l: "l \<in> set (letters w)" by simp
  from False f l show ?thesis
    by (auto simp: reconcile_def Let_def letters_store_signed_pdf update_letter_rows_def
        list_all2_map2 list_all2_same row_step_def same_keys_def split: option.splits)
qed


lemma webhook_cases:
  "(\<exists>ev d. valid_event P E req ev d) \<or>
   letters (snd (boldsign_webhook P E A req w)) = letters w"
proof (cases "accepted P E req")
  case False
  then show ?thesis
    by (cases "signature_header req")
       (auto simp: boldsign_webhook_def accepted_def verifyWebhookSignature_def Let_def)
next
  case True
  show ?thesis
  proof (cases "JSON_parse P (rawBody P req)")
    case (Inl m)
    then show ?thesis
      by (simp add: webhook_accepted [OF True] parse_and_dispatch_def webhook_error_def)
  next
    case (Inr payload)
    with True show ?thesis
      by (auto simp: webhook_accepted [OF True] parse_and_dispatch_def webhook_error_def
          dispatch_def valid_event_def Let_def split: option.splits json.splits)
  qed
qed

lemma list_all2_nthD2:
  "list_all2 R xs ys \<Longrightarrow> i < length xs \<Longrightarrow> length ys = length xs \<and> R (xs ! i) (ys ! i)"
  by (simp add: list_all2_conv_all_nth)

lemma reconcile_esign_status:
  assumes "known_letter w d l" and "\<not> find_error A" and "update_error A = None"
  shows "map esign_status (letters (snd (reconcile E A ev st d w))) =
         map (\<lambda>r. if ident r = ident l then Some st else esign_status r) (letters w)"
  using assms
  by (simp add: reconcile_def known_letter_def Let_def letters_store_signed_pdf
      update_letter_rows_def o_def)

lemma store_signed_pdf_calls:
  "\<exists>ups. calls (store_signed_pdf E A d l w) =
            calls w @ (if present (BOLDSIGN_API_KEY E) then [Download d] else []) @ ups \<and>
          (\<forall>e\<in>set ups. \<not> is_slack_post e)"
  by (auto simp: store_signed_pdf_def Let_def split: option.splits dl_result.splits)

lemma store_signed_pdf_clients [simp]: "clients (store_signed_pdf E A d l w) = clients w"
  by (auto simp: store_signed_pdf_def Let_def split: option.splits dl_result.splits)

lemma notify_slack_calls:
  "calls (notify_slack E A cid w) =
     calls w @ (if present (SLACK_WEBHOOK_URL E)
                then [SelectClient cid,
                      SlackPost (the (SLACK_WEBHOOK_URL E)) (compose_notice A cid (clients w))]
                else [])"
  by (auto simp: notify_slack_def Let_def split: option.splits)

lemma notify_slack_clients [simp]: "clients (notify_slack E A cid w) = clients w"
  by (auto simp: notify_slack_def Let_def split: option.splits)

lemma update_client_calls:
  "\<exists>msg. calls (update_client E A l w) =
           calls w @ (if present (client_id l)
                      then UpdateClient (the (client_id l))
                             [(''status'', ''Executed''), (''letter_executed'', today A)] #
                           (if present (SLACK_WEBHOOK_URL E)
                            then [SelectClient (the (client_id l)),
                                  SlackPost (the (SLACK_WEBHOOK_URL E)) msg] else [])
                      else [])"
  by (auto simp: update_client_def notify_slack_calls Let_def split: option.splits)

lemma update_client_clients:
  "clients (update_client E A l w) =
     (if present (client_id l) \<and> client_error A = None
      then update_client_rows (the (client_id l))
             [(''status'', ''Executed''), (''letter_executed'', today A)] (clients w)
      else clients w)"
  by (auto simp: update_client_def Let_def split: option.splits)

lemma reconcile_completed_calls:
  assumes "known_letter w d l" and "\<not> find_error A"
  shows "\<exists>ups msg. (\<forall>e\<in>set ups. \<not> is_slack_post e) \<and>
           new_calls w (snd (reconcile E A ''Completed'' st d w)) =
             [SelectLetterByDocument d,
              UpdateLetter (ident l) [(''esign_status'', st), (''approval_status'', ''Executed'')]] @
             (if present (BOLDSIGN_API_KEY E) then [Download d] else []) @ ups @
             (if present (client_id l)
              then UpdateClient (the (client_id l))
                     [(''status'', ''Executed''), (''letter_executed'', today A)] #
                   (if present (SLACK_WEBHOOK_URL E)
                    then [SelectClient (the (client_id l)),
                          SlackPost (the (SLACK_WEBHOOK_URL E)) msg] else [])
              else [])"
proof -
  define w3 where "w3 = (case update_error A of
       Some m \<Rightarrow> console_log [''Failed to update esign_status:'', m]
          (db_update_letter (update_error A) (ident l)
             [(''esign_status'', st), (''approval_status'', ''Executed'')]
             (emit (SelectLetterByDocument d) w))
     | None \<Rightarrow> db_update_letter (update_error A) (ident l)
             [(''esign_status'', st), (''approval_status'', ''Executed'')]
             (emit (SelectLetterByDocument d) w))"
  have c3: "calls w3 = calls w @ [SelectLetterByDocument d,
              UpdateLetter (ident l) [(''esign_status'', st), (''approval_status'', ''Executed'')]]"
    by (simp add: w3_def split: option.splits)
  from assms have r: "snd (reconcile E A ''Completed'' st d w) =
      update_client E A l (store_signed_pdf E A d l w3)"
    by (simp add: reconcile_def known_letter_def Let_def w3_def)
  obtain ups where ups: "calls (store_signed_pdf E A d l w3) =
            calls w3 @ (if present (BOLDSIGN_API_KEY E) then [Download d] else []) @ ups"
       "\<forall>e\<in>set ups. \<not> is_slack_post e"
    using store_signed_pdf_calls by blast
  obtain msg where msg: "calls (update_client E A l (store_signed_pdf E A d l w3)) =
           calls (store_signed_pdf E A d l w3) @ (if present (client_id l)
                      then UpdateClient (the (client_id l))
                             [(''status'', ''Executed''), (''letter_executed'', today A)] #
                           (if present (SLACK_WEBHOOK_URL E)
                            then [SelectClient (the (client_id l)),
                                  SlackPost (the (SLACK_WEBHOOK_URL E)) msg] else [])
                      else [])"
    using update_client_calls by blast
  have "(\<forall>e\<in>set ups. \<not> is_slack_post e) \<and>
        new_calls w (snd (reconcile E A ''Completed'' st d w)) =
          [SelectLetterByDocument d,
           UpdateLetter (ident l) [(''esign_status'', st), (''approval_status'', ''Executed'')]] @
          (if present (BOLDSIGN_API_KEY E) then [Download d] else []) @ ups @
          (if present (client_id l)
           then UpdateClient (the (client_id l))
                  [(''status'', ''Executed''), (''letter_executed'', today A)] #
                (if present (SLACK_WEBHOOK_URL E)
                 then [SelectClient (the (client_id l)),
                       SlackPost (the (SLACK_WEBHOOK_URL E)) msg] else [])
           else [])"
    using ups(2) by (simp add: r msg ups(1) c3 new_calls_def)
  then show ?thesis by blast
qed


lemma reconcile_response:
  "known_letter w d l \<Longrightarrow> \<not> find_error A \<Longrightarrow>
   fst (reconcile E A ev st d w) = json_response 200 [(''ok'', JBool True), (''status'', JStr st)]"
  by (simp add: reconcile_def known_letter_def Let_def)

lemma console_kept:
  "a \<in> set (console w) \<Longrightarrow> a \<in> set (console (store_signed_pdf E A d l w))"
  "a \<in> set (console w) \<Longrightarrow> a \<in> set (console (notify_slack E A cid w))"
  by (auto simp: store_signed_pdf_def notify_slack_def Let_def split: option.splits dl_result.splits)

lemma console_kept_update_client:
  "a \<in> set (console w) \<Longrightarrow> a \<in> set (console (update_client E A l w))"
  by (auto simp: update_client_def Let_def console_kept split: option.splits)

lemma reconcile_completed_rows:
  assumes "known_letter w d l" and "\<not> find_error A" and "update_error A = None"
    and "r \<in> set (letters (snd (reconcile E A ''Completed'' st d w)))" and "ident r = ident l"
  shows "approval_status r = Some ''Executed''"
  using assms
  by (auto simp: reconcile_def known_letter_def Let_def letters_store_signed_pdf
      update_letter_rows_def split: if_splits)

lemma reconcile_completed_clients:
  assumes "known_letter w d l" and "\<not> find_error A" and "present (client_id l)"
    and "client_error A = None"
    and "c \<in> set (clients (snd (reconcile E A ''Completed'' st d w)))"
    and "client_ident c = the (client_id l)"
  shows "status c = Some ''Executed'' \<and> letter_executed c = Some (today A)"
  using assms
  by (auto simp: reconcile_def known_letter_def Let_def update_client_clients
      update_client_rows_def split: if_splits option.splits)

lemma after_sent_completed_letters: "letters after_sent_completed = [L1_completed]"
  by (simp add: after_sent_completed_def webhook_defs demo_defs Let_def)

subsection \<open>The on-demand handlers\<close>

lemma read_letterId_admitted:
  "admitted P A req i \<Longrightarrow> read_letterId P A req w = (Next i, signed_in req w)"
  by (auto simp: admitted_def read_letterId_def signed_in_def Let_def split: option.splits sum.splits)

lemma fetch_admitted:
  "admitted P A req i \<Longrightarrow>
   fetch v P E A req w =
     (case v of Caller \<Rightarrow> retrieve E A i (signed_in req w)
              | Service \<Rightarrow> retrieve_service E A i (signed_in req w))"
  by (cases v)
     (simp_all add: fetch_def fetch_signed_document_def fetch_signed_document_service_def
        read_letterId_admitted, simp_all add: admitted_def)

lemma signed_in_simps [simp]:
  "letters (signed_in req w) = letters w"
  "storage (signed_in req w) = storage w"
  "clients (signed_in req w) = clients w"
  "calls (signed_in req w) = calls w @ [AuthGetUser (the (authorization req))]"
  by (simp_all add: signed_in_def emit_def)

lemma storage_ops [simp]:
  "storage (emit e w) = storage w"
  "storage (console_log a w) = storage w"
  "storage (db_update_letter err i upd w) = storage w"
  "storage (db_update_client err i upd w) = storage w"
  "storage (storage_upload err p b w) =
     (case err of None \<Rightarrow> upsert p b (storage w) | Some m \<Rightarrow> storage w)"
  by (auto simp: emit_def console_log_def storage_upload_def db_update_client_def db_update_letter_def
      Let_def split: option.splits)

lemma select_single_Inr:
  "select_single err rows = Inr l \<longleftrightarrow> err = None \<and> rows = [l]"
  by (auto simp: select_single_def split: option.splits list.splits)

lemma found_letter_select:
  "found_letter Caller A w i l \<Longrightarrow>
   select_single (letter_error A) (filter (\<lambda>r. ident r = i \<and> rls_visible A r) (letters w)) = Inr l"
  "found_letter Service A w i l \<Longrightarrow>
   select_single (letter_error A) (filter (\<lambda>r. ident r = i) (letters w)) = Inr l"
  by (simp_all add: found_letter_def select_single_def)

lemma found_letter_ident: "found_letter v A w i l \<Longrightarrow> ident l = i \<and> l \<in> set (letters w)"
proof -
  assume "found_letter v A w i l"
  then have "l \<in> set (filter (\<lambda>r. ident r = i \<and> (v = Caller \<longrightarrow> rls_visible A r)) (letters w))"
    by (simp add: found_letter_def)
  then show ?thesis by simp
qed

lemma storagePath_nonempty [simp]: "storagePath c i \<noteq> []"
  by (simp add: storagePath_def)

lemma code_json_response [simp]:
  "code (json_response st kvs) = st"
  "content (json_response st kvs) = Json kvs"
  by (simp_all add: json_response_def)

lemma json_response_eq [simp]:
  "json_response st kvs = json_response st' kvs' \<longleftrightarrow> st = st' \<and> kvs = kvs'"
  by (auto simp: json_response_def)

text \<open>What the guard phase (lines 55-89) does for a letter that the query answers.\<close>

lemma fetch_found:
  assumes "admitted P A req i" and "found_letter v A w i l"
  shows "fetch v P E A req w =
     (let w1 = emit (SelectLetterById i) (signed_in req w) in
      if present (signed_pdf_path l) then
        (json_response 200 [(''ok'', JBool True), (''path'', JStr (the (signed_pdf_path l))),
                            (''alreadyStored'', JBool True)], w1)
      else if \<not> present (boldsign_document_id l) then
        (json_response 400
           ((''error'', JStr ''No BoldSign document linked to this letter'') #
            (case v of Caller \<Rightarrow> []
             | Service \<Rightarrow> [(''detail'', JStr (''Letter '' @ i @ '' has esign_status='' @ [CHR 0x22]
                        @ interp (esign_status l) @ [CHR 0x22]
                        @ '' but boldsign_document_id is null. The document ID may not have been saved when the letter was sent for e-signature.''))])),
         w1)
      else if v = Caller \<and> esign_status l \<noteq> Some ''completed'' \<and> esign_status l \<noteq> Some ''signed'' then
        (json_response 400 [(''error'', JStr ''Document has not been signed yet'')], w1)
      else (case v of Caller \<Rightarrow> download_and_store E A l w1
                    | Service \<Rightarrow> download_and_store_service E A l w1))"
proof (cases v)
  case Caller
  with assms(2) have "select_single (letter_error A)
      (filter (\<lambda>r. ident r = i \<and> rls_visible A r) (letters w)) = Inr l"
    by (simp add: found_letter_select)
  with Caller show ?thesis
    by (simp add: fetch_admitted [OF assms(1)] retrieve_def Let_def)
next
  case Service
  with assms(2) have "select_single (letter_error A) (filter (\<lambda>r. ident r = i) (letters w)) = Inr l"
    by (simp add: found_letter_select)
  with Service show ?thesis
    by (simp add: fetch_admitted [OF assms(1)] retrieve_service_def Let_def)
qed

lemma read_letterId_cases:
  assumes "http_method req \<noteq> ''OPTIONS''"
  shows "(\<exists>i. admitted P A req i \<and> read_letterId P A req w = (Next i, signed_in req w)) \<or>
         (\<exists>m w1. read_letterId P A req w = (Throw m, w1) \<and> (w1 = w \<or> w1 = signed_in req w)) \<or>
         (\<exists>r w1. read_letterId P A req w = (Return r, w1) \<and> (w1 = w \<or> w1 = signed_in req w) \<and>
             (code r \<noteq> 400 \<or> content r = Json [(''error'', JStr ''Missing letterId'')]))"
proof (cases "present (authorization req)")
  case False
  then show ?thesis by (simp add: read_letterId_def)
next
  case auth: True
  show ?thesis
  proof (cases "auth_user A")
    case None
    with auth show ?thesis by (simp add: read_letterId_def signed_in_def Let_def)
  next
    case (Some u)
    show ?thesis
    proof (cases "case email u of None \<Rightarrow> False | Some e \<Rightarrow> endsWith e ''@margolispllc.com''")
      case False
      with auth Some show ?thesis by (simp add: read_letterId_def signed_in_def Let_def)
    next
      case dom: True
      show ?thesis
      proof (cases "JSON_parse P (rawBody P req)")
        case (Inl m)
        with auth Some dom show ?thesis by (simp add: read_letterId_def signed_in_def Let_def)
      next
        case (Inr b)
        show ?thesis
        proof (cases "\<exists>i. b \<noteq> JNull \<and> get_prop b ''letterId'' = Some (JStr i) \<and> i \<noteq> []")
          case True
          then obtain i where "b \<noteq> JNull" "get_prop b ''letterId'' = Some (JStr i)" "i \<noteq> []"
            by blast
          with auth Some dom Inr assms have "admitted P A req i"
            by (simp add: admitted_def)
          then show ?thesis using read_letterId_admitted by blast
        next
          case False
          with auth Some dom Inr show ?thesis
            by (auto simp: read_letterId_def signed_in_def Let_def split: option.splits json.splits)
        qed
      qed
    qed
  qed
qed

lemma download_and_store_200:
  assumes "code (fst (download_and_store E A l w)) = 200"
  shows "\<exists>b. download A = DlOk b \<and> upload_error A = None \<and>
           download_and_store E A l w =
             (json_response 200 [(''ok'', JBool True),
                                 (''path'', JStr (storagePath (client_id l) (ident l)))],
              db_update_letter (path_update_error A) (ident l)
                [(''signed_pdf_path'', storagePath (client_id l) (ident l))]
                (storage_upload None (storagePath (client_id l) (ident l)) b
                   (emit (Download (the (boldsign_document_id l))) w)))"
  using assms
  by (cases "present (BOLDSIGN_API_KEY E)"; cases "download A"; cases "upload_error A")
     (simp_all add: download_and_store_def Let_def)

lemma download_and_store_service_200:
  assumes "code (fst (download_and_store_service E A l w)) = 200"
  shows "\<exists>b. download A = DlOk b \<and> upload_error A = None \<and>
           fst (download_and_store_service E A l w) =
             json_response 200 [(''ok'', JBool True),
                                 (''path'', JStr (storagePath (client_id l) (ident l)))] \<and>
           calls (snd (download_and_store_service E A l w)) =
             calls w @ [Download (the (boldsign_document_id l)),
                        Upload (storagePath (client_id l) (ident l)) b,
                        UpdateLetter (ident l)
                          ((''signed_pdf_path'', storagePath (client_id l) (ident l)) #
                           (if esign_status l \<noteq> Some ''completed''
                            then [(''esign_status'', ''completed'')] else []))] \<and>
           letters (snd (download_and_store_service E A l w)) =
             (case path_update_error A of
                None \<Rightarrow> update_letter_rows (ident l)
                  ((''signed_pdf_path'', storagePath (client_id l) (ident l)) #
                   (if esign_status l \<noteq> Some ''completed''
                    then [(''esign_status'', ''completed'')] else [])) (letters w)
              | Some m \<Rightarrow> letters w)"
  using assms
  by (cases "present (BOLDSIGN_API_KEY E)"; cases "download A"; cases "upload_error A";
      cases "path_update_error A")
     (simp_all add: download_and_store_service_def Let_def split: if_splits)

subsection \<open>Stored paths\<close>






lemma store_signed_pdf_calls_exact:
  "calls (store_signed_pdf E A d l w) =
     calls w @
     (if present (BOLDSIGN_API_KEY E)
      then Download d #
           (case download A of
              DlOk b \<Rightarrow>
                Upload (storagePath (client_id l) (ident l)) b #
                (case upload_error A of
                   None \<Rightarrow> [UpdateLetter (ident l)
                              [(''signed_pdf_path'', storagePath (client_id l) (ident l))]]
                 | Some m \<Rightarrow> [])
            | DlThrows m \<Rightarrow> []
            | DlFail n t \<Rightarrow> [])
      else [])"
  by (cases "download A"; cases "upload_error A")
     (simp_all add: store_signed_pdf_def Let_def)


lemma update_client_keyed:
  "\<exists>cs. calls (update_client E A l w) = calls w @ cs \<and> list_all (keyed_upload rows) cs"
proof -
  obtain msg where "calls (update_client E A l w) =
           calls w @ (if present (client_id l)
                      then UpdateClient (the (client_id l))
                             [(''status'', ''Executed''), (''letter_executed'', today A)] #
                           (if present (SLACK_WEBHOOK_URL E)
                            then [SelectClient (the (client_id l)),
                                  SlackPost (the (SLACK_WEBHOOK_URL E)) msg] else [])
                      else [])"
    using update_client_calls by blast
  then show ?thesis by auto
qed









lemma download_and_store_not_400:
  "code (fst (download_and_store E A l w)) \<noteq> 400"
  "code (fst (download_and_store_service E A l w)) \<noteq> 400"
  by (cases "present (BOLDSIGN_API_KEY E)"; cases "download A"; cases "upload_error A";
      simp add: download_and_store_def download_and_store_service_def Let_def)+

lemma fetch_not_found:
  assumes "admitted P A req i" and "\<not> (\<exists>l. found_letter v A w i l)"
  shows "code (fst (fetch v P E A req w)) = 404"
  using assms(2)
  by (cases v)
     (auto simp: fetch_admitted [OF assms(1)] retrieve_def retrieve_service_def Let_def
        found_letter_def select_single_Inr split: sum.splits)

lemma fetch_fresh_success:
  assumes "admitted P A req i" and "found_letter v A w i l" and "\<not> present (signed_pdf_path l)"
    and "code (fst (fetch v P E A req w)) = 200"
  shows "\<exists>b upd. download A = DlOk b \<and> upload_error A = None \<and>
           (upd = [] \<or> upd = [(''esign_status'', ''completed'')]) \<and>
           fst (fetch v P E A req w) =
             json_response 200 [(''ok'', JBool True),
                                (''path'', JStr (storagePath (client_id l) (ident l)))] \<and>
           calls (snd (fetch v P E A req w)) =
             calls w @ [AuthGetUser (the (authorization req)), SelectLetterById i,
              Download (the (boldsign_document_id l)),
              Upload (storagePath (client_id l) (ident l)) b,
              UpdateLetter (ident l)
                ((''signed_pdf_path'', storagePath (client_id l) (ident l)) # upd)] \<and>
           letters (snd (fetch v P E A req w)) =
             (case path_update_error A of
                None \<Rightarrow> update_letter_rows (ident l)
                  ((''signed_pdf_path'', storagePath (client_id l) (ident l)) # upd) (letters w)
              | Some m \<Rightarrow> letters w)"
proof (cases v)
  case Caller
  let ?w1 = "emit (SelectLetterById i) (signed_in req w)"
  from assms(3,4) Caller fetch_found [OF assms(1,2), of E]
  have run: "fetch v P E A req w = download_and_store E A l ?w1"
    by (auto simp: Let_def split: if_splits)
  with assms(4) download_and_store_200 [of E A l ?w1]
  obtain b where b: "download A = DlOk b" "upload_error A = None"
           "download_and_store E A l ?w1 =
             (json_response 200 [(''ok'', JBool True),
                                 (''path'', JStr (storagePath (client_id l) (ident l)))],
              db_update_letter (path_update_error A) (ident l)
                [(''signed_pdf_path'', storagePath (client_id l) (ident l))]
                (storage_upload None (storagePath (client_id l) (ident l)) b
                   (emit (Download (the (boldsign_document_id l))) ?w1)))"
    by auto
  show ?thesis
    by (rule exI [of _ b], rule exI [of _ "[]"]) (simp add: run b split: option.splits)
next
  case Service
  let ?w1 = "emit (SelectLetterById i) (signed_in req w)"
  from assms(3,4) Service fetch_found [OF assms(1,2), of E]
  have run: "fetch v P E A req w = download_and_store_service E A l ?w1"
    by (auto simp: Let_def split: if_splits)
  with assms(4) download_and_store_service_200 [of E A l ?w1]
  obtain b where b: "download A = DlOk b" "upload_error A = None"
           "fst (download_and_store_service E A l ?w1) =
             json_response 200 [(''ok'', JBool True),
                                 (''path'', JStr (storagePath (client_id l) (ident l)))]"
           "calls (snd (download_and_store_service E A l ?w1)) =
             calls ?w1 @ [Download (the (boldsign_document_id l)),
                        Upload (storagePath (client_id l) (ident l)) b,
                        UpdateLetter (ident l)
                          ((''signed_pdf_path'', storagePath (client_id l) (ident l)) #
                           (if esign_status l \<noteq> Some ''completed''
                            then [(''esign_status'', ''completed'')] else []))]"
           "letters (snd (download_and_store_service E A l ?w1)) =
             (case path_update_error A of
                None \<Rightarrow> update_letter_rows (ident l)
                  ((''signed_pdf_path'', storagePath (client_id l) (ident l)) #
                   (if esign_status l \<noteq> Some ''completed''
                    then [(''esign_status'', ''completed'')] else [])) (letters ?w1)
              | Some m \<Rightarrow> letters ?w1)"
    by auto
  show ?thesis
    by (rule exI [of _ b],
        rule exI [of _ "if esign_status l \<noteq> Some ''completed'' then [(''esign_status'', ''completed'')] else []"])
       (simp add: run b split: option.splits)
qed

lemma updated_row_path:
  assumes "r \<in> set (update_letter_rows i ((''signed_pdf_path'', p) # upd) rows)" and "ident r = i"
    and "upd = [] \<or> upd = [(''esign_status'', st)]"
  shows "signed_pdf_path r = Some p"
proof -
  from assms(1) obtain r0 where r0: "r0 \<in> set rows"
    "r = (if ident r0 = i then fold set_column ((''signed_pdf_path'', p) # upd) r0 else r0)"
    unfolding update_letter_rows_def set_map image_iff by blast
  show ?thesis
  proof (cases "ident r0 = i")
    case True
    with r0(2) have "r = fold set_column ((''signed_pdf_path'', p) # upd) r0" by simp
    with assms(3) show ?thesis by (elim disjE) simp_all
  next
    case False
    with r0(2) assms(2) show ?thesis by simp
  qed
qed

lemma reconcile_completed_world:
  assumes "known_letter w d l" and "\<not> find_error A"
  shows "snd (reconcile E A ''Completed'' st d w) =
     update_client E A l (store_signed_pdf E A d l
       (case update_error A of
          Some m \<Rightarrow> console_log [''Failed to update esign_status:'', m]
            (db_update_letter (update_error A) (ident l)
               [(''esign_status'', st), (''approval_status'', ''Executed'')]
               (emit (SelectLetterByDocument d) w))
        | None \<Rightarrow> db_update_letter (update_error A) (ident l)
               [(''esign_status'', st), (''approval_status'', ''Executed'')]
               (emit (SelectLetterByDocument d) w)))"
  using assms
  by (cases "update_error A") (simp_all add: reconcile_def known_letter_def Let_def)

lemma webhook_uploads_again:
  assumes "valid_event P E req ''Completed'' d" and "known_letter w d l" and "\<not> find_error A"
    and "present (BOLDSIGN_API_KEY E)" and "download A = DlOk b"
  shows "Upload (storagePath (client_id l) (ident l)) b
           \<in> set (new_calls w (snd (boldsign_webhook P E A req w)))"
proof -
  define w3 where "w3 = (case update_error A of
          Some m \<Rightarrow> console_log [''Failed to update esign_status:'', m]
            (db_update_letter (update_error A) (ident l)
               [(''esign_status'', the (mapEventToStatus ''Completed'')), (''approval_status'', ''Executed'')]
               (emit (SelectLetterByDocument d) w))
        | None \<Rightarrow> db_update_letter (update_error A) (ident l)
               [(''esign_status'', the (mapEventToStatus ''Completed'')), (''approval_status'', ''Executed'')]
               (emit (SelectLetterByDocument d) w))"
  have c3: "calls w3 = calls w @ [SelectLetterByDocument d,
      UpdateLetter (ident l) [(''esign_status'', the (mapEventToStatus ''Completed'')),
                              (''approval_status'', ''Executed'')]]"
    by (simp add: w3_def split: option.splits)
  have r: "snd (boldsign_webhook P E A req w) = update_client E A l (store_signed_pdf E A d l w3)"
    unfolding webhook_valid_event [OF assms(1)] reconcile_completed_world [OF assms(2,3)] w3_def ..
  obtain cs where cs: "calls (update_client E A l (store_signed_pdf E A d l w3)) =
      calls (store_signed_pdf E A d l w3) @ cs"
    using update_client_keyed [of E A l "store_signed_pdf E A d l w3" "[]"] by blast
  show ?thesis
    using assms(4,5)
    by (cases "upload_error A") (simp_all add: r cs store_signed_pdf_calls_exact c3 new_calls_def)
qed


subsection \<open>The calls of one event\<close>

lemma update_client_calls_exact:
  "calls (update_client E A l w) =
     calls w @
     (if present (client_id l)
      then UpdateClient (the (client_id l))
             [(''status'', ''Executed''), (''letter_executed'', today A)] #
           (if present (SLACK_WEBHOOK_URL E)
            then [SelectClient (the (client_id l)),
                  SlackPost (the (SLACK_WEBHOOK_URL E))
                    (compose_notice A (the (client_id l)) (clients (update_client E A l w)))]
            else [])
      else [])"
  by (auto simp: update_client_def notify_slack_calls Let_def split: option.splits)

lemma reconcile_world:
  assumes "known_letter w d l" and "\<not> find_error A"
  shows "snd (reconcile E A ev st d w) =
     (if ev = ''Completed''
      then update_client E A l (store_signed_pdf E A d l
        (case update_error A of
           Some m \<Rightarrow> console_log [''Failed to update esign_status:'', m]
             (db_update_letter (update_error A) (ident l)
                [(''esign_status'', st), (''approval_status'', ''Executed'')]
                (emit (SelectLetterByDocument d) w))
         | None \<Rightarrow> db_update_letter (update_error A) (ident l)
                [(''esign_status'', st), (''approval_status'', ''Executed'')]
                (emit (SelectLetterByDocument d) w)))
      else (case update_error A of
           Some m \<Rightarrow> console_log [''Failed to update esign_status:'', m]
             (db_update_letter (update_error A) (ident l) [(''esign_status'', st)]
                (emit (SelectLetterByDocument d) w))
         | None \<Rightarrow> db_update_letter (update_error A) (ident l) [(''esign_status'', st)]
                (emit (SelectLetterByDocument d) w)))"
  using assms
  by (cases "update_error A") (simp_all add: reconcile_def known_letter_def Let_def)

lemma reconcile_clients:
  assumes "known_letter w d l" and "\<not> find_error A"
  shows "clients (snd (reconcile E A ev st d w)) =
     (if ev = ''Completed'' \<and> present (client_id l) \<and> client_error A = None
      then update_client_rows (the (client_id l))
             [(''status'', ''Executed''), (''letter_executed'', today A)] (clients w)
      else clients w)"
  by (cases "update_error A")
     (simp_all add: reconcile_world [OF assms] update_client_clients)

lemma reconcile_calls_exact:
  assumes "known_letter w d l" and "\<not> find_error A"
  shows "new_calls w (snd (reconcile E A ev st d w)) =
     SelectLetterByDocument d #
     UpdateLetter (ident l)
       ((''esign_status'', st) #
        (if ev = ''Completed'' then [(''approval_status'', ''Executed'')] else [])) #
     (if ev = ''Completed''
      then (if present (BOLDSIGN_API_KEY E)
            then Download d #
                 (case download A of
                    DlOk b \<Rightarrow>
                      Upload (storagePath (client_id l) (ident l)) b #
                      (case upload_error A of
                         None \<Rightarrow> [UpdateLetter (ident l)
                                    [(''signed_pdf_path'', storagePath (client_id l) (ident l))]]
                       | Some m \<Rightarrow> [])
                  | DlThrows m \<Rightarrow> []
                  | DlFail n t \<Rightarrow> [])
            else []) @
           (if present (client_id l)
            then UpdateClient (the (client_id l))
                   [(''status'', ''Executed''), (''letter_executed'', today A)] #
                 (if present (SLACK_WEBHOOK_URL E)
                  then [SelectClient (the (client_id l)),
                        SlackPost (the (SLACK_WEBHOOK_URL E))
                          (compose_notice A (the (client_id l))
                             (clients (snd (reconcile E A ev st d w))))]
                  else [])
            else [])
      else [])"
proof (cases "ev = ''Completed''")
  case False
  then show ?thesis
    by (cases "update_error A") (simp_all add: reconcile_world [OF assms] new_calls_def)
next
  case True
  define w3 where "w3 = (case update_error A of
           Some m \<Rightarrow> console_log [''Failed to update esign_status:'', m]
             (db_update_letter (update_error A) (ident l)
                [(''esign_status'', st), (''approval_status'', ''Executed'')]
                (emit (SelectLetterByDocument d) w))
         | None \<Rightarrow> db_update_letter (update_error A) (ident l)
                [(''esign_status'', st), (''approval_status'', ''Executed'')]
                (emit (SelectLetterByDocument d) w))"
  have c3: "calls w3 = calls w @ [SelectLetterByDocument d,
              UpdateLetter (ident l) [(''esign_status'', st), (''approval_status'', ''Executed'')]]"
    by (simp add: w3_def split: option.splits)
  have r: "snd (reconcile E A ev st d w) = update_client E A l (store_signed_pdf E A d l w3)"
    using True by (simp add: reconcile_world [OF assms] w3_def)
  show ?thesis
    unfolding r new_calls_def
    by (subst update_client_calls_exact)
       (simp add: store_signed_pdf_calls_exact c3 True)
qed

lemma reconcile_unknown:
  assumes "find_error A \<or> filter (\<lambda>r. boldsign_document_id r = Some d) (letters w) = []"
  shows "letters (snd (reconcile E A ev st d w)) = letters w"
    and "calls (snd (reconcile E A ev st d w)) = calls w @ [SelectLetterByDocument d]"
  using assms by (auto simp: reconcile_def Let_def)

lemma known_letter_cases:
  "find_error A \<or> filter (\<lambda>r. boldsign_document_id r = Some d) (letters w) = [] \<or>
   (\<not> find_error A \<and> (\<exists>l. known_letter w d l))"
  by (cases "filter (\<lambda>r. boldsign_document_id r = Some d) (letters w)")
     (auto simp: known_letter_def)

lemma reconcile_esign_status_failed:
  assumes "known_letter w d l" and "\<not> find_error A" and "update_error A = Some m"
  shows "map esign_status (letters (snd (reconcile E A ev st d w))) = map esign_status (letters w)"
  using assms
  by (simp add: reconcile_def known_letter_def Let_def letters_store_signed_pdf
      update_letter_rows_def o_def)
subsection \<open>The key of the retrieved letter\<close>

lemma map_of_upsert [simp]: "map_of (upsert k v s) k = Some v"
  by (induction k v s rule: upsert.induct) auto

lemma filter_upsert [simp]:
  "filter (\<lambda>kv. fst kv \<noteq> k) (upsert k v s) = filter (\<lambda>kv. fst kv \<noteq> k) s"
  by (induction k v s rule: upsert.induct) auto

lemma storage_notify_slack [simp]: "storage (notify_slack E A cid w) = storage w"
  by (auto simp: notify_slack_def Let_def split: option.splits)

lemma storage_update_client [simp]: "storage (update_client E A l w) = storage w"
  by (auto simp: update_client_def Let_def split: option.splits)















subsection \<open>The on-demand handlers and the key\<close>









section \<open>The signature check\<close>

text \<open>
  C5 as stated fails: the handler does not check the signature against the bytes of the
  body as they arrived, but against the re-encoding of the decoded text (lines 57 and
  38). The delivery below carries a byte order mark before the body and a signature that
  is the HMAC of the body without the mark, so not the HMAC of the raw body; it passes
  the signature check, is answered 200, and the letter is updated.
\<close>

theorem bom_delivery_counterexample:
  "present (BOLDSIGN_WEBHOOK_SECRET demo_env) \<and>
   signature_header bom_delivery \<noteq>
     Some (hmac_sha256_base64 demo_platform
             (utf8_encode demo_platform (the (BOLDSIGN_WEBHOOK_SECRET demo_env)))
             (wire_body bom_delivery)) \<and>
   code (fst (boldsign_webhook demo_platform demo_env all_ok bom_delivery demo_world)) = 200 \<and>
   map esign_status (letters demo_world) = [Some ''sent''] \<and>
   map esign_status (letters (snd (boldsign_webhook demo_platform demo_env all_ok bom_delivery
      demo_world))) = [Some ''completed'']"
  by (simp add: webhook_defs demo_defs Let_def)

text \<open>
  C5, amended. With a webhook secret configured, a POST delivery whose signature header
  is missing or empty, or differs from the HMAC-SHA256, under the secret, of the UTF-8
  encoding of the decoded body text, is answered 401, and the world is exactly as
  before: no table row, no stored object, no recorded outbound call (database read or
  write, download, upload, notification) and no log line. The encoding of the decoded
  text is the raw body only where the raw body is well-formed UTF-8 with no byte order
  mark.
\<close>

theorem unsigned_delivery_rejected:
  assumes "http_method req = ''POST''" and "present (BOLDSIGN_WEBHOOK_SECRET E)"
    and "\<not> present (signature_header req) \<or>
         signature_header req \<noteq>
           Some (hmac_sha256_base64 P (utf8_encode P (the (BOLDSIGN_WEBHOOK_SECRET E)))
                   (utf8_encode P (rawBody P req)))"
  shows "code (fst (boldsign_webhook P E A req w)) = 401 \<and>
         snd (boldsign_webhook P E A req w) = w"
  using assms
  by (cases "signature_header req")
     (auto simp: boldsign_webhook_def verifyWebhookSignature_def json_response_def Let_def)

theorem unsigned_delivery_rejected_witness:
  "http_method (forged ''Completed'') = ''POST'' \<and> present (BOLDSIGN_WEBHOOK_SECRET demo_env) \<and>
   signature_header (forged ''Completed'') \<noteq>
     Some (hmac_sha256_base64 demo_platform
             (utf8_encode demo_platform (the (BOLDSIGN_WEBHOOK_SECRET demo_env)))
             (utf8_encode demo_platform (rawBody demo_platform (forged ''Completed'')))) \<and>
   code (fst (boldsign_webhook demo_platform demo_env all_ok (forged ''Completed'') demo_world)) = 401 \<and>
   snd (boldsign_webhook demo_platform demo_env all_ok (forged ''Completed'') demo_world) = demo_world"
proof -
  have a: "http_method (forged ''Completed'') = ''POST''" by simp
  have b: "present (BOLDSIGN_WEBHOOK_SECRET demo_env)" by (simp add: demo_defs)
  have c: "signature_header (forged ''Completed'') \<noteq>
     Some (hmac_sha256_base64 demo_platform
             (utf8_encode demo_platform (the (BOLDSIGN_WEBHOOK_SECRET demo_env)))
             (utf8_encode demo_platform (rawBody demo_platform (forged ''Completed''))))"
    by (simp add: demo_defs)
  from a b c unsigned_delivery_rejected [OF a b disjI2 [OF c], of all_ok demo_world] show ?thesis by blast
qed

section \<open>Events the handler does not act on\<close>

text \<open>
  C7 as stated fails: a correctly signed delivery whose body is \<open>null\<close> carries neither
  an event type nor a document identifier, yet reading \<open>payload.event\<close> throws (line 79);
  the delivery is answered 500, not a success acknowledgment, and a line is logged.
\<close>

theorem null_payload_counterexample:
  "accepted demo_platform demo_env null_delivery \<and>
   JSON_parse demo_platform (rawBody demo_platform null_delivery) = Inr JNull \<and>
   boldsign_webhook demo_platform demo_env all_ok null_delivery demo_world =
     (json_response 500 [(''error'', JStr ''Cannot read properties of null (reading 'event')'')],
      demo_world\<lparr>console := [[''Webhook error:'',
                                ''Cannot read properties of null (reading 'event')'']]\<rparr>)"
  by (simp add: accepted_def webhook_defs demo_defs Let_def)

text \<open>
  C7, amended. An accepted delivery whose body parses to a payload other than \<open>null\<close>
  that lacks a (truthy) event type or document identifier, or whose event type is not one
  of the seven handled names, is answered 200 with \<open>ok: true\<close>, and the world is
  exactly as before. A body that parses to \<open>null\<close> is answered 500.
\<close>

theorem unhandled_event_acknowledged:
  assumes "accepted P E req" and "JSON_parse P (rawBody P req) = Inr payload" and "payload \<noteq> JNull"
    and "\<not> truthy (payload_eventType payload) \<or> \<not> truthy (payload_documentId payload) \<or>
         payload_eventType payload \<notin> (\<lambda>ev. Some (JStr ev)) ` set HANDLED_EVENTS"
  shows "code (fst (boldsign_webhook P E A req w)) = 200 \<and>
         (\<exists>rest. content (fst (boldsign_webhook P E A req w)) = Json ((''ok'', JBool True) # rest)) \<and>
         snd (boldsign_webhook P E A req w) = w"
  using assms(2-)
  by (auto simp: webhook_accepted [OF assms(1)] parse_and_dispatch_def dispatch_def
      json_response_def Let_def split: option.splits json.splits)

theorem unhandled_event_acknowledged_witness:
  "accepted demo_platform demo_env (delivery ''Reassigned'') \<and>
   JSON_parse demo_platform (rawBody demo_platform (delivery ''Reassigned'')) =
     Inr (event_json ''Reassigned'' ''doc-1'') \<and>
   event_json ''Reassigned'' ''doc-1'' \<noteq> JNull \<and>
   payload_eventType (event_json ''Reassigned'' ''doc-1'') \<notin> (\<lambda>ev. Some (JStr ev)) ` set HANDLED_EVENTS \<and>
   code (fst (boldsign_webhook demo_platform demo_env all_ok (delivery ''Reassigned'') demo_world)) = 200 \<and>
   snd (boldsign_webhook demo_platform demo_env all_ok (delivery ''Reassigned'') demo_world) = demo_world"
proof -
  have a: "accepted demo_platform demo_env (delivery ''Reassigned'')"
    by (simp add: accepted_def demo_defs)
  have b: "JSON_parse demo_platform (rawBody demo_platform (delivery ''Reassigned'')) =
           Inr (event_json ''Reassigned'' ''doc-1'')"
    by (simp add: demo_defs)
  have c: "event_json ''Reassigned'' ''doc-1'' \<noteq> JNull" by (simp add: event_json_def)
  have d: "payload_eventType (event_json ''Reassigned'' ''doc-1'') \<notin>
           (\<lambda>ev. Some (JStr ev)) ` set HANDLED_EVENTS"
    by (simp add: payload_eventType_def js_or_def event_json_def HANDLED_EVENTS_def)
  from a b c d
    unhandled_event_acknowledged [OF a b c disjI2 [OF disjI2 [OF d]], of all_ok demo_world]
  show ?thesis by blast
qed

section \<open>The status is the last event's\<close>

text \<open>
  C2. A valid, classified event for a known letter, when the status write succeeds, sets
  \<open>esign_status\<close> of the letter (every row with the found letter's id) to the value
  mapped from the event, whatever the status was before; every other row keeps its
  status. The example is the order Sent, Completed, Viewed: the letter ends at
  \<open>viewed\<close>.
\<close>

theorem status_last_write_wins:
  assumes "valid_event P E req ev d" and "known_letter w d l"
    and "\<not> find_error A" and "update_error A = None"
  shows "map esign_status (letters (snd (boldsign_webhook P E A req w))) =
         map (\<lambda>r. if ident r = ident l then mapEventToStatus ev else esign_status r) (letters w)"
proof -
  from assms(1) have "ev \<in> set HANDLED_EVENTS"
    by (auto simp: valid_event_def split: sum.splits)
  then obtain st where st: "mapEventToStatus ev = Some st" using handled_mapped by blast
  show ?thesis
    unfolding webhook_valid_event [OF assms(1)] st option.sel
    by (rule reconcile_esign_status [OF assms(2,3,4)])
qed

theorem status_last_write_wins_witness:
  "valid_event demo_platform demo_env (delivery ''Viewed'') ''Viewed'' ''doc-1'' \<and>
   known_letter after_sent_completed ''doc-1'' L1_completed \<and>
   \<not> find_error all_ok \<and> update_error all_ok = None \<and>
   map esign_status (letters after_sent_completed) = [Some ''completed''] \<and>
   map esign_status (letters (snd (boldsign_webhook demo_platform demo_env all_ok
       (delivery ''Viewed'') after_sent_completed))) = [Some ''viewed'']"
proof -
  have a: "valid_event demo_platform demo_env (delivery ''Viewed'') ''Viewed'' ''doc-1''"
    by (simp add: valid_event_def accepted_def payload_eventType_def payload_documentId_def
        js_or_def HANDLED_EVENTS_def demo_defs)
  have b: "known_letter after_sent_completed ''doc-1'' L1_completed"
    by (simp add: known_letter_def after_sent_completed_letters) (simp add: demo_defs)
  have c: "\<not> find_error all_ok" and d: "update_error all_ok = None"
    by (simp_all add: all_ok_def)
  have e: "map esign_status (letters after_sent_completed) = [Some ''completed'']"
    by (simp add: after_sent_completed_letters) (simp add: demo_defs)
  from status_last_write_wins [OF a b c d]
  have "map esign_status (letters (snd (boldsign_webhook demo_platform demo_env all_ok
       (delivery ''Viewed'') after_sent_completed))) = [Some ''viewed'']"
    by (simp add: after_sent_completed_letters mapEventToStatus_def)
  with a b c d e show ?thesis by blast
qed

section \<open>A completed letter under later events\<close>

text \<open>
  C1 as stated fails: a \<open>Viewed\<close> delivery that arrives after completion sets the
  status of the completed letter back to \<open>viewed\<close>.
\<close>

theorem completed_regressed_counterexample:
  "map esign_status (letters completed_world) = [Some ''completed''] \<and>
   map esign_status (letters (snd (boldsign_webhook demo_platform demo_env all_ok
      (delivery ''Viewed'') completed_world))) = [Some ''viewed'']"
  by (simp add: webhook_defs completed_world_def demo_defs Let_def)

text \<open>
  C1, amended. Under any request to the webhook handler, a row whose status is
  \<open>completed\<close> keeps its place and its keys, and its status afterwards is still
  \<open>completed\<close> unless the request is a valid delivery of a handled event other than
  \<open>Completed\<close> whose document id selects a letter with the id of this row, and the
  status write succeeds; then, and only then, the status is the value mapped from that
  event, which is not \<open>completed\<close>. The statement is about webhook deliveries only.
\<close>

theorem completed_kept_or_overwritten:
  assumes "i < length (letters w)" and "esign_status (letters w ! i) = Some ''completed''"
  shows "length (letters (snd (boldsign_webhook P E A req w))) = length (letters w) \<and>
         same_keys (letters w ! i) (letters (snd (boldsign_webhook P E A req w)) ! i) \<and>
         (esign_status (letters (snd (boldsign_webhook P E A req w)) ! i) = Some ''completed'' \<or>
          (\<exists>ev d l. valid_event P E req ev d \<and> ev \<noteq> ''Completed'' \<and> known_letter w d l \<and>
             ident l = ident (letters w ! i) \<and> \<not> find_error A \<and> update_error A = None \<and>
             esign_status (letters (snd (boldsign_webhook P E A req w)) ! i) = mapEventToStatus ev \<and>
             mapEventToStatus ev \<noteq> Some ''completed'')) \<and>
         (\<forall>ev d l. valid_event P E req ev d \<and> known_letter w d l \<and>
             ident l = ident (letters w ! i) \<and> \<not> find_error A \<and> update_error A = None \<longrightarrow>
             esign_status (letters (snd (boldsign_webhook P E A req w)) ! i) = mapEventToStatus ev)"
proof -
  let ?w' = "snd (boldsign_webhook P E A req w)"
  have overwritten: "esign_status (letters ?w' ! i) = mapEventToStatus ev"
    if v: "valid_event P E req ev d" and k: "known_letter w d l"
      and same: "ident l = ident (letters w ! i)" and ok: "\<not> find_error A" "update_error A = None"
    for ev d l
  proof -
    from v have "ev \<in> set HANDLED_EVENTS" by (auto simp: valid_event_def split: sum.splits)
    then obtain st where st: "mapEventToStatus ev = Some st" using handled_mapped by blast
    have "map esign_status (letters ?w') =
          map (\<lambda>r. if ident r = ident l then Some st else esign_status r) (letters w)"
      unfolding webhook_valid_event [OF v] st option.sel
      by (rule reconcile_esign_status [OF k ok])
    then have "map esign_status (letters ?w') ! i =
               map (\<lambda>r. if ident r = ident l then Some st else esign_status r) (letters w) ! i"
      by simp
    moreover from \<open>map esign_status (letters ?w') = _\<close>
    have "length (letters ?w') = length (letters w)" by (metis length_map)
    ultimately show ?thesis using assms(1) same st by simp
  qed
  have kept: "length (letters ?w') = length (letters w) \<and>
         same_keys (letters w ! i) (letters ?w' ! i) \<and>
         (esign_status (letters ?w' ! i) = Some ''completed'' \<or>
          (\<exists>ev d l. valid_event P E req ev d \<and> ev \<noteq> ''Completed'' \<and> known_letter w d l \<and>
             ident l = ident (letters w ! i) \<and> \<not> find_error A \<and> update_error A = None \<and>
             esign_status (letters ?w' ! i) = mapEventToStatus ev \<and>
             mapEventToStatus ev \<noteq> Some ''completed''))"
  proof (cases "\<exists>ev d. valid_event P E req ev d")
    case False
    with webhook_cases [of P E req A w] have "letters ?w' = letters w" by blast
    with assms show ?thesis by (simp add: same_keys_def)
  next
    case True
    then obtain ev d where v: "valid_event P E req ev d" by blast
    then have h: "ev \<in> set HANDLED_EVENTS" by (auto simp: valid_event_def split: sum.splits)
    then obtain st where st: "mapEventToStatus ev = Some st" using handled_mapped by blast
    have run: "boldsign_webhook P E A req w = reconcile E A ev st d w"
      using webhook_valid_event [OF v] st by simp
    have "list_all2 (row_step (letters w) (Some st)) (letters w) (letters ?w')"
      unfolding run by (rule reconcile_rows)
    from list_all2_nthD2 [OF this assms(1)]
    have len: "length (letters ?w') = length (letters w)"
      and rs: "row_step (letters w) (Some st) (letters w ! i) (letters ?w' ! i)"
      by simp_all
    from rs have keys: "same_keys (letters w ! i) (letters ?w' ! i)" by (simp add: row_step_def)
    from known_letter_cases [of A d w] consider
        (unknown) "find_error A \<or> filter (\<lambda>r. boldsign_document_id r = Some d) (letters w) = []"
      | (known) l where "\<not> find_error A" "known_letter w d l"
      by blast
    then have "esign_status (letters ?w' ! i) = Some ''completed'' \<or>
          (\<exists>ev d l. valid_event P E req ev d \<and> ev \<noteq> ''Completed'' \<and> known_letter w d l \<and>
             ident l = ident (letters w ! i) \<and> \<not> find_error A \<and> update_error A = None \<and>
             esign_status (letters ?w' ! i) = mapEventToStatus ev \<and>
             mapEventToStatus ev \<noteq> Some ''completed'')"
    proof cases
      case unknown
      then have "letters ?w' = letters w" unfolding run by (rule reconcile_unknown)
      with assms(2) show ?thesis by simp
    next
      case known
      show ?thesis
      proof (cases "update_error A")
        case (Some m)
        have "map esign_status (letters ?w') = map esign_status (letters w)"
          unfolding run by (rule reconcile_esign_status_failed [OF known(2,1) Some])
        then have "map esign_status (letters ?w') ! i = map esign_status (letters w) ! i" by simp
        with assms len show ?thesis by simp
      next
        case None
        have m: "map esign_status (letters ?w') =
              map (\<lambda>r. if ident r = ident l then Some st else esign_status r) (letters w)"
          unfolding run by (rule reconcile_esign_status [OF known(2,1) None])
        then have "map esign_status (letters ?w') ! i =
              map (\<lambda>r. if ident r = ident l then Some st else esign_status r) (letters w) ! i"
          by simp
        with assms len have e: "esign_status (letters ?w' ! i) =
              (if ident (letters w ! i) = ident l then Some st else Some ''completed'')"
          by simp
        show ?thesis
        proof (cases "ident (letters w ! i) = ident l \<and> ev \<noteq> ''Completed''")
          case False
          with e st show ?thesis by (auto simp: mapEventToStatus_def split: if_splits)
        next
          case True
          with h st have "mapEventToStatus ev \<noteq> Some ''completed''"
            by (auto simp: mapEventToStatus_def HANDLED_EVENTS_def)
          moreover from True e st
          have "esign_status (letters ?w' ! i) = mapEventToStatus ev" by simp
          moreover from True have "ident l = ident (letters w ! i)" "ev \<noteq> ''Completed''"
            by simp_all
          ultimately show ?thesis using v known None by blast
        qed
      qed
    qed
    with len keys show ?thesis by blast
  qed
  from kept overwritten show ?thesis by blast
qed

theorem completed_kept_or_overwritten_witness:
  "0 < length (letters completed_world) \<and>
   esign_status (letters completed_world ! 0) = Some ''completed'' \<and>
   valid_event demo_platform demo_env (delivery ''Viewed'') ''Viewed'' ''doc-1'' \<and>
   known_letter completed_world ''doc-1'' L1_completed \<and>
   ident L1_completed = ident (letters completed_world ! 0) \<and>
   \<not> find_error all_ok \<and> update_error all_ok = None \<and>
   length (letters (snd (boldsign_webhook demo_platform demo_env all_ok (delivery ''Viewed'')
      completed_world))) = length (letters completed_world) \<and>
   esign_status (letters (snd (boldsign_webhook demo_platform demo_env all_ok (delivery ''Viewed'')
      completed_world)) ! 0) = Some ''viewed''"
proof -
  have a: "0 < length (letters completed_world)" by (simp add: demo_defs)
  have b: "esign_status (letters completed_world ! 0) = Some ''completed''"
    by (simp add: demo_defs)
  have c: "valid_event demo_platform demo_env (delivery ''Viewed'') ''Viewed'' ''doc-1''"
    by (simp add: valid_event_def accepted_def payload_eventType_def payload_documentId_def
        js_or_def HANDLED_EVENTS_def demo_defs)
  have d: "known_letter completed_world ''doc-1'' L1_completed"
    "ident L1_completed = ident (letters completed_world ! 0)"
    "\<not> find_error all_ok" "update_error all_ok = None"
    "mapEventToStatus ''Viewed'' = Some ''viewed''"
    by (simp_all add: known_letter_def mapEventToStatus_def demo_defs)
  from completed_kept_or_overwritten
         [OF a b, of demo_platform demo_env all_ok "delivery ''Viewed''"] c d
  have "length (letters (snd (boldsign_webhook demo_platform demo_env all_ok (delivery ''Viewed'')
      completed_world))) = length (letters completed_world) \<and>
   esign_status (letters (snd (boldsign_webhook demo_platform demo_env all_ok (delivery ''Viewed'')
      completed_world)) ! 0) = Some ''viewed''"
    by metis
  with a b c d show ?thesis by blast
qed

section \<open>Response codes of the webhook\<close>

text \<open>
  C8 as stated fails: a correctly signed delivery whose body is not JSON reaches the
  handler's \<open>catch\<close> and is answered 500.
\<close>

theorem malformed_body_counterexample:
  "code (fst (boldsign_webhook demo_platform demo_env all_ok malformed demo_world)) = 500"
  by (simp add: webhook_defs demo_defs Let_def)

text \<open>
  C8, amended. The status of every response is decided by the request alone, whatever the
  outbound calls answer: 200 for \<open>OPTIONS\<close>, 405 for any other method than \<open>POST\<close>,
  401 when the signature check refuses the delivery, 500 when the body does not parse as
  JSON, parses to \<open>null\<close>, or carries a handled event whose document id cannot be
  converted to a string (an object with an own key \<open>toString\<close>, also inside an array),
  and 200 otherwise. A 200 answer to a \<open>POST\<close> carries a JSON body that starts with
  \<open>ok: true\<close>. No failure of a database, provider, store or notification call changes
  the status.
\<close>

theorem response_codes:
  "code (fst (boldsign_webhook P E A req w)) =
     (if http_method req = ''OPTIONS'' then 200
      else if http_method req \<noteq> ''POST'' then 405
      else if \<not> accepted P E req then 401
      else if (case JSON_parse P (rawBody P req) of
                 Inl m \<Rightarrow> True
               | Inr payload \<Rightarrow> payload = JNull \<or> filter_throws payload)
      then 500
      else 200) \<and>
   (http_method req = ''POST'' \<and> code (fst (boldsign_webhook P E A req w)) = 200 \<longrightarrow>
      (\<exists>rest. content (fst (boldsign_webhook P E A req w)) = Json ((''ok'', JBool True) # rest)))"
proof (cases "accepted P E req")
  case False
  then show ?thesis
    by (cases "signature_header req")
       (auto simp: boldsign_webhook_def accepted_def verifyWebhookSignature_def Let_def
          json_response_def)
next
  case True
  then have post: "http_method req = ''POST''" by (simp add: accepted_def)
  show ?thesis
  proof (cases "JSON_parse P (rawBody P req)")
    case (Inl m)
    with post True show ?thesis
      by (simp add: webhook_accepted [OF True] parse_and_dispatch_def webhook_error_def
          json_response_def)
  next
    case (Inr payload)
    show ?thesis
    proof (cases "payload = JNull")
      case True
      with post \<open>accepted P E req\<close> Inr show ?thesis
        by (simp add: webhook_accepted parse_and_dispatch_def webhook_error_def json_response_def)
    next
      case False
      have run: "boldsign_webhook P E A req w = dispatch E A payload w"
        using Inr False by (simp add: webhook_accepted [OF True] parse_and_dispatch_def)
      have "code (fst (dispatch E A payload w)) = (if filter_throws payload then 500 else 200) \<and>
            (code (fst (dispatch E A payload w)) = 200 \<longrightarrow>
               (\<exists>rest. content (fst (dispatch E A payload w)) = Json ((''ok'', JBool True) # rest)))"
        by (auto simp: dispatch_def filter_throws_def webhook_error_def reconcile_def
            json_response_def Let_def mapEventToStatus_def HANDLED_EVENTS_def
            split: option.splits json.splits list.splits)
      with post True Inr False show ?thesis by (simp add: run)
    qed
  qed
qed

theorem response_codes_witness:
  "accepted demo_platform demo_env (delivery ''Completed'') \<and>
   code (fst (boldsign_webhook demo_platform demo_env download_and_slack_fail
                (delivery ''Completed'') demo_world)) = 200 \<and>
   code (fst (boldsign_webhook demo_platform demo_env all_ok (forged ''Completed'') demo_world)) = 401 \<and>
   accepted demo_platform demo_env odd_delivery \<and>
   JSON_parse demo_platform (rawBody demo_platform odd_delivery) = Inr odd_json \<and>
   filter_throws odd_json \<and>
   code (fst (boldsign_webhook demo_platform demo_env all_ok odd_delivery demo_world)) = 500"
proof -
  have a: "accepted demo_platform demo_env (delivery ''Completed'')"
    by (simp add: accepted_def demo_defs)
  have b: "\<not> accepted demo_platform demo_env (forged ''Completed'')"
    by (simp add: accepted_def demo_defs)
  have c: "http_method (delivery ''Completed'') = ''POST''"
    "http_method (forged ''Completed'') = ''POST''"
    "JSON_parse demo_platform (rawBody demo_platform (delivery ''Completed'')) =
       Inr (event_json ''Completed'' ''doc-1'')"
    "event_json ''Completed'' ''doc-1'' \<noteq> JNull"
    "\<not> filter_throws (event_json ''Completed'' ''doc-1'')"
    by (simp_all add: filter_throws_def payload_documentId_def js_or_def demo_defs)
  have d: "accepted demo_platform demo_env odd_delivery"
    by (simp add: accepted_def demo_defs)
  have e: "http_method odd_delivery = ''POST''"
    "JSON_parse demo_platform (rawBody demo_platform odd_delivery) = Inr odd_json"
    "filter_throws odd_json"
    by (simp_all add: filter_throws_def payload_eventType_def payload_documentId_def js_or_def
        HANDLED_EVENTS_def demo_defs)
  from a b c d e
    response_codes [of demo_platform demo_env download_and_slack_fail "delivery ''Completed''" demo_world]
    response_codes [of demo_platform demo_env all_ok "forged ''Completed''" demo_world]
    response_codes [of demo_platform demo_env all_ok odd_delivery demo_world]
  show ?thesis by simp
qed

section \<open>Side effects of completion\<close>

text \<open>
  C4 as stated fails: without a configured provider API key the handler does not attempt
  the retrieval. The \<open>Completed\<close> delivery below makes five outbound calls and none is
  a download.
\<close>

theorem no_api_key_counterexample:
  "calls (snd (boldsign_webhook demo_platform no_key_env all_ok (delivery ''Completed'') demo_world)) =
     [SelectLetterByDocument ''doc-1'',
      UpdateLetter ''L1'' [(''esign_status'', ''completed''), (''approval_status'', ''Executed'')],
      UpdateClient ''C1'' [(''status'', ''Executed''), (''letter_executed'', ''2026-02-16'')],
      SelectClient ''C1'',
      SlackPost ''https://hooks.slack.com/services/T''
        \<lparr>slack_text = ''Engagement letter signed by Acme LLC'', slack_client = ''Acme LLC'',
         slack_matter = ''Formation'', slack_signed = ''2026-02-16''\<rparr>]"
  by (simp add: webhook_defs demo_defs Let_def)

text \<open>
  C4, amended. A valid \<open>Completed\<close> event for a known letter that has a client is
  answered 200 with \<open>ok: true\<close>, and its outbound calls are, in this order and whatever
  any of them answers: the lookup; the letter update carrying
  \<open>approval_status = Executed\<close>; with an API key configured, and only then, the provider
  download, followed by the upload and the path update where the step before succeeded;
  the client update carrying \<open>status = Executed\<close> and the processing date; and with a
  Slack URL configured, and only then, the client lookup and one notification post. So
  the notification is posted exactly once with a Slack URL and never without. Where the
  letter update succeeds the letter's approval status is \<open>Executed\<close>; where the client
  update succeeds the client is \<open>Executed\<close> with \<open>letter_executed\<close> the processing
  date.
\<close>

theorem completion_side_effects:
  assumes "valid_event P E req ''Completed'' d" and "known_letter w d l" and "\<not> find_error A"
    and "present (client_id l)"
  shows "fst (boldsign_webhook P E A req w) =
           json_response 200 [(''ok'', JBool True), (''status'', JStr ''completed'')] \<and>
         new_calls w (snd (boldsign_webhook P E A req w)) =
           [SelectLetterByDocument d,
            UpdateLetter (ident l) [(''esign_status'', ''completed''), (''approval_status'', ''Executed'')]] @
           (if present (BOLDSIGN_API_KEY E)
            then Download d #
                 (case download A of
                    DlOk b \<Rightarrow>
                      Upload (storagePath (client_id l) (ident l)) b #
                      (case upload_error A of
                         None \<Rightarrow> [UpdateLetter (ident l)
                                    [(''signed_pdf_path'', storagePath (client_id l) (ident l))]]
                       | Some m \<Rightarrow> [])
                  | DlThrows m \<Rightarrow> []
                  | DlFail n t \<Rightarrow> [])
            else []) @
           UpdateClient (the (client_id l)) [(''status'', ''Executed''), (''letter_executed'', today A)] #
           (if present (SLACK_WEBHOOK_URL E)
            then [SelectClient (the (client_id l)),
                  SlackPost (the (SLACK_WEBHOOK_URL E))
                    (compose_notice A (the (client_id l))
                       (clients (snd (boldsign_webhook P E A req w))))]
            else []) \<and>
         length (filter is_slack_post (new_calls w (snd (boldsign_webhook P E A req w)))) =
           (if present (SLACK_WEBHOOK_URL E) then 1 else 0) \<and>
         (update_error A = None \<longrightarrow>
            (\<forall>r\<in>set (letters (snd (boldsign_webhook P E A req w))).
               ident r = ident l \<longrightarrow> approval_status r = Some ''Executed'')) \<and>
         (client_error A = None \<longrightarrow>
            (\<forall>c\<in>set (clients (snd (boldsign_webhook P E A req w))).
               client_ident c = the (client_id l) \<longrightarrow>
               status c = Some ''Executed'' \<and> letter_executed c = Some (today A)))"
proof -
  have st: "the (mapEventToStatus ''Completed'') = ''completed''"
    by (simp add: mapEventToStatus_def)
  have run: "boldsign_webhook P E A req w = reconcile E A ''Completed'' ''completed'' d w"
    using webhook_valid_event [OF assms(1)] st by simp
  have nc: "new_calls w (snd (boldsign_webhook P E A req w)) =
           [SelectLetterByDocument d,
            UpdateLetter (ident l) [(''esign_status'', ''completed''), (''approval_status'', ''Executed'')]] @
           (if present (BOLDSIGN_API_KEY E)
            then Download d #
                 (case download A of
                    DlOk b \<Rightarrow>
                      Upload (storagePath (client_id l) (ident l)) b #
                      (case upload_error A of
                         None \<Rightarrow> [UpdateLetter (ident l)
                                    [(''signed_pdf_path'', storagePath (client_id l) (ident l))]]
                       | Some m \<Rightarrow> [])
                  | DlThrows m \<Rightarrow> []
                  | DlFail n t \<Rightarrow> [])
            else []) @
           UpdateClient (the (client_id l)) [(''status'', ''Executed''), (''letter_executed'', today A)] #
           (if present (SLACK_WEBHOOK_URL E)
            then [SelectClient (the (client_id l)),
                  SlackPost (the (SLACK_WEBHOOK_URL E))
                    (compose_notice A (the (client_id l))
                       (clients (snd (boldsign_webhook P E A req w))))]
            else [])"
    unfolding run using assms(4) by (simp add: reconcile_calls_exact [OF assms(2,3)])
  have one: "length (filter is_slack_post (new_calls w (snd (boldsign_webhook P E A req w)))) =
           (if present (SLACK_WEBHOOK_URL E) then 1 else 0)"
    unfolding nc by (cases "download A"; cases "upload_error A") simp_all
  have resp: "fst (boldsign_webhook P E A req w) =
           json_response 200 [(''ok'', JBool True), (''status'', JStr ''completed'')]"
    by (simp add: run reconcile_response [OF assms(2,3)])
  have rows: "update_error A = None \<longrightarrow>
            (\<forall>r\<in>set (letters (snd (boldsign_webhook P E A req w))).
               ident r = ident l \<longrightarrow> approval_status r = Some ''Executed'')"
    unfolding run using reconcile_completed_rows [OF assms(2,3)] by blast
  have cl: "client_error A = None \<longrightarrow>
            (\<forall>c\<in>set (clients (snd (boldsign_webhook P E A req w))).
               client_ident c = the (client_id l) \<longrightarrow>
               status c = Some ''Executed'' \<and> letter_executed c = Some (today A))"
    unfolding run using reconcile_completed_clients [OF assms(2,3,4)] by blast
  from resp nc one rows cl show ?thesis by blast
qed

theorem completion_side_effects_witness:
  "valid_event demo_platform demo_env (delivery ''Completed'') ''Completed'' ''doc-1'' \<and>
   known_letter demo_world ''doc-1'' L1 \<and> \<not> find_error download_and_slack_fail \<and>
   present (client_id L1) \<and>
   download download_and_slack_fail = DlFail 503 ''unavailable'' \<and>
   slack_throws download_and_slack_fail = Some ''connection refused'' \<and>
   update_error download_and_slack_fail = None \<and> client_error download_and_slack_fail = None \<and>
   fst (boldsign_webhook demo_platform demo_env download_and_slack_fail (delivery ''Completed'') demo_world) =
     json_response 200 [(''ok'', JBool True), (''status'', JStr ''completed'')] \<and>
   new_calls demo_world (snd (boldsign_webhook demo_platform demo_env
                download_and_slack_fail (delivery ''Completed'') demo_world)) =
     [SelectLetterByDocument ''doc-1'',
      UpdateLetter ''L1'' [(''esign_status'', ''completed''), (''approval_status'', ''Executed'')],
      Download ''doc-1'',
      UpdateClient ''C1'' [(''status'', ''Executed''), (''letter_executed'', ''2026-02-16'')],
      SelectClient ''C1'',
      SlackPost ''https://hooks.slack.com/services/T''
        (compose_notice download_and_slack_fail ''C1''
           (clients (snd (boldsign_webhook demo_platform demo_env
                download_and_slack_fail (delivery ''Completed'') demo_world))))] \<and>
   map approval_status (letters (snd (boldsign_webhook demo_platform demo_env
                download_and_slack_fail (delivery ''Completed'') demo_world))) = [Some ''Executed''] \<and>
   map status (clients (snd (boldsign_webhook demo_platform demo_env
                download_and_slack_fail (delivery ''Completed'') demo_world))) = [Some ''Executed''] \<and>
   map letter_executed (clients (snd (boldsign_webhook demo_platform demo_env
                download_and_slack_fail (delivery ''Completed'') demo_world))) = [Some ''2026-02-16'']"
proof -
  have a: "valid_event demo_platform demo_env (delivery ''Completed'') ''Completed'' ''doc-1''"
    by (simp add: valid_event_def accepted_def payload_eventType_def payload_documentId_def
        js_or_def HANDLED_EVENTS_def demo_defs)
  have b: "known_letter demo_world ''doc-1'' L1" by (simp add: known_letter_def demo_defs)
  have c: "\<not> find_error download_and_slack_fail" by (simp add: demo_defs)
  have d: "present (client_id L1)" by (simp add: demo_defs)
  have g: "download download_and_slack_fail = DlFail 503 ''unavailable''"
    "slack_throws download_and_slack_fail = Some ''connection refused''"
    "update_error download_and_slack_fail = None" "client_error download_and_slack_fail = None"
    "the (client_id L1) = ''C1''" "today download_and_slack_fail = ''2026-02-16''"
    "ident L1 = ''L1''" "present (BOLDSIGN_API_KEY demo_env)"
    "present (SLACK_WEBHOOK_URL demo_env)"
    "the (SLACK_WEBHOOK_URL demo_env) = ''https://hooks.slack.com/services/T''"
    by (simp_all add: demo_defs)
  have rows: "letters (snd (boldsign_webhook demo_platform demo_env
                download_and_slack_fail (delivery ''Completed'') demo_world)) =
              [L1\<lparr>esign_status := Some ''completed'', approval_status := Some ''Executed''\<rparr>]"
    "clients (snd (boldsign_webhook demo_platform demo_env
                download_and_slack_fail (delivery ''Completed'') demo_world)) =
              [C1\<lparr>status := Some ''Executed'', letter_executed := Some ''2026-02-16''\<rparr>]"
    by (simp_all add: webhook_defs demo_defs Let_def)
  from completion_side_effects [OF a b c d] g a b c d
  show ?thesis by (simp add: rows)
qed

section \<open>A failed status write\<close>

text \<open>
  C10. When the write of \<open>esign_status\<close> itself fails for a valid event of a known
  letter, the failure is logged and nothing else changes course: no status is changed,
  the answer is still 200 with \<open>ok: true\<close> and the mapped status, the very answer
  given when the write succeeds, and the outbound calls are those made when the write
  succeeds. On \<open>Completed\<close> these are, after the lookup and the failed letter update:
  with an API key the download, then the upload and the path update where the step
  before succeeded; for a letter with a client the client update; and with a Slack URL
  the client lookup and the notification post.
\<close>

theorem failed_status_write_acknowledged:
  assumes "valid_event P E req ev d" and "known_letter w d l" and "\<not> find_error A"
    and "update_error A = Some m"
  shows "fst (boldsign_webhook P E A req w) =
           json_response 200 [(''ok'', JBool True), (''status'', JStr (the (mapEventToStatus ev)))] \<and>
         map esign_status (letters (snd (boldsign_webhook P E A req w))) = map esign_status (letters w) \<and>
         fst (boldsign_webhook P E A req w) =
           fst (boldsign_webhook P E (A\<lparr>update_error := None\<rparr>) req w) \<and>
         [''Failed to update esign_status:'', m] \<in> set (console (snd (boldsign_webhook P E A req w))) \<and>
         new_calls w (snd (boldsign_webhook P E A req w)) =
           new_calls w (snd (boldsign_webhook P E (A\<lparr>update_error := None\<rparr>) req w)) \<and>
         new_calls w (snd (boldsign_webhook P E A req w)) =
           SelectLetterByDocument d #
           UpdateLetter (ident l)
             ((''esign_status'', the (mapEventToStatus ev)) #
              (if ev = ''Completed'' then [(''approval_status'', ''Executed'')] else [])) #
           (if ev = ''Completed''
            then (if present (BOLDSIGN_API_KEY E)
                  then Download d #
                       (case download A of
                          DlOk b \<Rightarrow>
                            Upload (storagePath (client_id l) (ident l)) b #
                            (case upload_error A of
                               None \<Rightarrow> [UpdateLetter (ident l)
                                          [(''signed_pdf_path'', storagePath (client_id l) (ident l))]]
                             | Some m \<Rightarrow> [])
                        | DlThrows m \<Rightarrow> []
                        | DlFail n t \<Rightarrow> [])
                  else []) @
                 (if present (client_id l)
                  then UpdateClient (the (client_id l))
                         [(''status'', ''Executed''), (''letter_executed'', today A)] #
                       (if present (SLACK_WEBHOOK_URL E)
                        then [SelectClient (the (client_id l)),
                              SlackPost (the (SLACK_WEBHOOK_URL E))
                                (compose_notice A (the (client_id l))
                                   (clients (snd (boldsign_webhook P E A req w))))]
                        else [])
                  else [])
            else [])"
proof -
  let ?st = "the (mapEventToStatus ev)"
  let ?B = "A\<lparr>update_error := None\<rparr>"
  have run: "boldsign_webhook P E A' req w = reconcile E A' ev ?st d w" for A'
    by (rule webhook_valid_event [OF assms(1)])
  have B: "\<not> find_error ?B" using assms(3) by simp
  have resp: "fst (boldsign_webhook P E A req w) =
           json_response 200 [(''ok'', JBool True), (''status'', JStr ?st)]"
    by (simp add: run reconcile_response [OF assms(2,3)])
  have same: "fst (boldsign_webhook P E A req w) = fst (boldsign_webhook P E ?B req w)"
    by (simp add: run reconcile_response [OF assms(2,3)] reconcile_response [OF assms(2) B])
  have rows: "map esign_status (letters (snd (boldsign_webhook P E A req w))) = map esign_status (letters w)"
    unfolding run by (rule reconcile_esign_status_failed [OF assms(2,3,4)])
  have logged: "[''Failed to update esign_status:'', m] \<in> set (console (snd (boldsign_webhook P E A req w)))"
    using assms(2,3,4)
    by (simp add: run reconcile_def known_letter_def Let_def console_kept console_kept_update_client)
  have cl: "clients (snd (reconcile E A ev ?st d w)) = clients (snd (reconcile E ?B ev ?st d w))"
    by (simp add: reconcile_clients [OF assms(2,3)] reconcile_clients [OF assms(2) B])
  have cn: "compose_notice ?B cid rows = compose_notice A cid rows" for cid rows
    by (simp add: compose_notice_def)
  have calls_same: "new_calls w (snd (boldsign_webhook P E A req w)) =
           new_calls w (snd (boldsign_webhook P E ?B req w))"
    unfolding run reconcile_calls_exact [OF assms(2,3)] reconcile_calls_exact [OF assms(2) B] cl
    by (cases "download A"; cases "upload_error A") (simp_all add: cn)
  have calls_exact: "new_calls w (snd (boldsign_webhook P E A req w)) =
           SelectLetterByDocument d #
           UpdateLetter (ident l)
             ((''esign_status'', ?st) #
              (if ev = ''Completed'' then [(''approval_status'', ''Executed'')] else [])) #
           (if ev = ''Completed''
            then (if present (BOLDSIGN_API_KEY E)
                  then Download d #
                       (case download A of
                          DlOk b \<Rightarrow>
                            Upload (storagePath (client_id l) (ident l)) b #
                            (case upload_error A of
                               None \<Rightarrow> [UpdateLetter (ident l)
                                          [(''signed_pdf_path'', storagePath (client_id l) (ident l))]]
                             | Some m \<Rightarrow> [])
                        | DlThrows m \<Rightarrow> []
                        | DlFail n t \<Rightarrow> [])
                  else []) @
                 (if present (client_id l)
                  then UpdateClient (the (client_id l))
                         [(''status'', ''Executed''), (''letter_executed'', today A)] #
                       (if present (SLACK_WEBHOOK_URL E)
                        then [SelectClient (the (client_id l)),
                              SlackPost (the (SLACK_WEBHOOK_URL E))
                                (compose_notice A (the (client_id l))
                                   (clients (snd (boldsign_webhook P E A req w))))]
                        else [])
                  else [])
            else [])"
    unfolding run by (rule reconcile_calls_exact [OF assms(2,3)])
  from resp same rows logged calls_same calls_exact show ?thesis by blast
qed

theorem failed_status_write_acknowledged_witness:
  "valid_event demo_platform demo_env (delivery ''Completed'') ''Completed'' ''doc-1'' \<and>
   known_letter demo_world ''doc-1'' L1 \<and> \<not> find_error status_write_fails \<and>
   update_error status_write_fails = Some ''connection timeout'' \<and>
   fst (boldsign_webhook demo_platform demo_env status_write_fails (delivery ''Completed'') demo_world) =
     json_response 200 [(''ok'', JBool True), (''status'', JStr ''completed'')] \<and>
   map esign_status (letters (snd (boldsign_webhook demo_platform demo_env status_write_fails
       (delivery ''Completed'') demo_world))) = [Some ''sent''] \<and>
   new_calls demo_world (snd (boldsign_webhook demo_platform demo_env
       status_write_fails (delivery ''Completed'') demo_world)) =
     [SelectLetterByDocument ''doc-1'',
      UpdateLetter ''L1'' [(''esign_status'', ''completed''), (''approval_status'', ''Executed'')],
      Download ''doc-1'',
      Upload ''C1/L1_signed.pdf'' [0x25, 0x50, 0x44, 0x46],
      UpdateLetter ''L1'' [(''signed_pdf_path'', ''C1/L1_signed.pdf'')],
      UpdateClient ''C1'' [(''status'', ''Executed''), (''letter_executed'', ''2026-02-16'')],
      SelectClient ''C1'',
      SlackPost ''https://hooks.slack.com/services/T''
        (compose_notice status_write_fails ''C1''
           (clients (snd (boldsign_webhook demo_platform demo_env
                status_write_fails (delivery ''Completed'') demo_world))))]"
proof -
  have a: "valid_event demo_platform demo_env (delivery ''Completed'') ''Completed'' ''doc-1''"
    by (simp add: valid_event_def accepted_def payload_eventType_def payload_documentId_def
        js_or_def HANDLED_EVENTS_def demo_defs)
  have b: "known_letter demo_world ''doc-1'' L1" by (simp add: known_letter_def demo_defs)
  have c: "\<not> find_error status_write_fails" by (simp add: demo_defs)
  have d: "update_error status_write_fails = Some ''connection timeout''" by (simp add: demo_defs)
  have e: "present (BOLDSIGN_API_KEY demo_env)" "the (mapEventToStatus ''Completed'') = ''completed''"
    "map esign_status (letters demo_world) = [Some ''sent'']"
    "present (SLACK_WEBHOOK_URL demo_env)"
    "the (SLACK_WEBHOOK_URL demo_env) = ''https://hooks.slack.com/services/T''"
    "download status_write_fails = DlOk [0x25, 0x50, 0x44, 0x46]"
    "upload_error status_write_fails = None" "today status_write_fails = ''2026-02-16''"
    "ident L1 = ''L1''" "client_id L1 = Some ''C1''"
    "storagePath (Some ''C1'') ''L1'' = ''C1/L1_signed.pdf''"
    by (simp_all add: demo_defs mapEventToStatus_def storagePath_def interp_def)
  note t = failed_status_write_acknowledged [OF a b c d]
  from t [THEN conjunct1] e
  have r: "fst (boldsign_webhook demo_platform demo_env status_write_fails (delivery ''Completed'')
             demo_world) =
           json_response 200 [(''ok'', JBool True), (''status'', JStr ''completed'')]"
    by simp
  from t [THEN conjunct2, THEN conjunct1] e
  have s: "map esign_status (letters (snd (boldsign_webhook demo_platform demo_env status_write_fails
       (delivery ''Completed'') demo_world))) = [Some ''sent'']"
    by simp
  from t [THEN conjunct2, THEN conjunct2, THEN conjunct2, THEN conjunct2, THEN conjunct2] e
  have n: "new_calls demo_world (snd (boldsign_webhook demo_platform demo_env
       status_write_fails (delivery ''Completed'') demo_world)) =
     [SelectLetterByDocument ''doc-1'',
      UpdateLetter ''L1'' [(''esign_status'', ''completed''), (''approval_status'', ''Executed'')],
      Download ''doc-1'',
      Upload ''C1/L1_signed.pdf'' [0x25, 0x50, 0x44, 0x46],
      UpdateLetter ''L1'' [(''signed_pdf_path'', ''C1/L1_signed.pdf'')],
      UpdateClient ''C1'' [(''status'', ''Executed''), (''letter_executed'', ''2026-02-16'')],
      SelectClient ''C1'',
      SlackPost ''https://hooks.slack.com/services/T''
        (compose_notice status_write_fails ''C1''
           (clients (snd (boldsign_webhook demo_platform demo_env
                status_write_fails (delivery ''Completed'') demo_world))))]"
    by simp
  from a b c d r s n show ?thesis by blast
qed

section \<open>A letter without a provider document\<close>

text \<open>
  C9. In both versions of the on-demand handler, an admitted request for a letter that
  has neither a stored path nor a provider document id is answered 400 with the error
  \<open>No BoldSign document linked to this letter\<close>; the only outbound calls are the user
  lookup and the letter query (no download, no upload), and tables and store are
  unchanged. The error is distinguishable: a 400 with this message is answered in no
  other situation.
\<close>

theorem missing_document_id_refused:
  "(admitted P A req i \<and> found_letter v A w i l \<and> \<not> present (signed_pdf_path l) \<and>
    \<not> present (boldsign_document_id l) \<longrightarrow>
      code (fst (fetch v P E A req w)) = 400 \<and>
      (\<exists>rest. content (fst (fetch v P E A req w)) =
         Json ((''error'', JStr ''No BoldSign document linked to this letter'') # rest)) \<and>
      new_calls w (snd (fetch v P E A req w)) =
        [AuthGetUser (the (authorization req)), SelectLetterById i] \<and>
      storage (snd (fetch v P E A req w)) = storage w \<and>
      letters (snd (fetch v P E A req w)) = letters w) \<and>
   (code (fst (fetch v P E A req w)) = 400 \<and>
    content (fst (fetch v P E A req w)) =
      Json ((''error'', JStr ''No BoldSign document linked to this letter'') # others) \<longrightarrow>
      (\<exists>j k. admitted P A req j \<and> found_letter v A w j k \<and> \<not> present (signed_pdf_path k) \<and>
             \<not> present (boldsign_document_id k)))"
proof (intro conjI impI)
  assume a: "admitted P A req i \<and> found_letter v A w i l \<and> \<not> present (signed_pdf_path l) \<and>
    \<not> present (boldsign_document_id l)"
  then have adm: "admitted P A req i" and f: "found_letter v A w i l" by simp_all
  from a show "code (fst (fetch v P E A req w)) = 400"
    by (simp add: fetch_found [OF adm f] Let_def)
  from a show "\<exists>rest. content (fst (fetch v P E A req w)) =
         Json ((''error'', JStr ''No BoldSign document linked to this letter'') # rest)"
    by (simp add: fetch_found [OF adm f] Let_def)
  from a show "new_calls w (snd (fetch v P E A req w)) =
        [AuthGetUser (the (authorization req)), SelectLetterById i]"
    by (simp add: fetch_found [OF adm f] Let_def new_calls_def)
  from a show "storage (snd (fetch v P E A req w)) = storage w"
    by (simp add: fetch_found [OF adm f] Let_def)
  from a show "letters (snd (fetch v P E A req w)) = letters w"
    by (simp add: fetch_found [OF adm f] Let_def)
next
  assume r: "code (fst (fetch v P E A req w)) = 400 \<and>
    content (fst (fetch v P E A req w)) =
      Json ((''error'', JStr ''No BoldSign document linked to this letter'') # others)"
  have m: "http_method req \<noteq> ''OPTIONS''"
  proof
    assume "http_method req = ''OPTIONS''"
    then have "code (fst (fetch v P E A req w)) = 200"
      by (cases v) (simp_all add: fetch_def fetch_signed_document_def fetch_signed_document_service_def)
    with r show False by simp
  qed
  from read_letterId_cases [OF m, of P A w]
  consider (nxt) j where "admitted P A req j"
    | (thr) e w1 where "read_letterId P A req w = (Throw e, w1)"
    | (ret) r' w1 where "read_letterId P A req w = (Return r', w1)"
        "code r' \<noteq> 400 \<or> content r' = Json [(''error'', JStr ''Missing letterId'')]"
    by blast
  then show "\<exists>j k. admitted P A req j \<and> found_letter v A w j k \<and> \<not> present (signed_pdf_path k) \<and>
             \<not> present (boldsign_document_id k)"
  proof cases
    case thr
    with m have "code (fst (fetch v P E A req w)) = 500"
      by (cases v) (simp_all add: fetch_def fetch_signed_document_def fetch_signed_document_service_def)
    with r show ?thesis by simp
  next
    case ret
    with m have "fst (fetch v P E A req w) = r'"
      by (cases v) (simp_all add: fetch_def fetch_signed_document_def fetch_signed_document_service_def)
    with r ret(2) show ?thesis by auto
  next
    case nxt
    show ?thesis
    proof (cases "\<exists>k. found_letter v A w j k")
      case False
      from fetch_not_found [OF nxt False] r show ?thesis by simp
    next
      case True
      then obtain k where f: "found_letter v A w j k" by blast
      from r download_and_store_not_400 [of E A k "emit (SelectLetterById j) (signed_in req w)"]
        fetch_found [OF nxt f, of E]
      have "\<not> present (signed_pdf_path k) \<and> \<not> present (boldsign_document_id k)"
        by (cases v) (auto simp: Let_def split: if_splits)
      with nxt f show ?thesis by blast
    qed
  qed
qed

theorem missing_document_id_refused_witness:
  "admitted demo_platform all_ok fetch_request ''L1'' \<and>
   found_letter Caller all_ok unlinked_world ''L1'' L1_unlinked \<and>
   found_letter Service all_ok unlinked_world ''L1'' L1_unlinked \<and>
   \<not> present (signed_pdf_path L1_unlinked) \<and> \<not> present (boldsign_document_id L1_unlinked) \<and>
   code (fst (fetch Caller demo_platform demo_env all_ok fetch_request unlinked_world)) = 400 \<and>
   new_calls unlinked_world (snd (fetch Caller demo_platform demo_env all_ok fetch_request unlinked_world)) =
     [AuthGetUser ''Bearer token'', SelectLetterById ''L1''] \<and>
   code (fst (fetch Service demo_platform demo_env all_ok fetch_request unlinked_world)) = 400 \<and>
   new_calls unlinked_world (snd (fetch Service demo_platform demo_env all_ok fetch_request unlinked_world)) =
     [AuthGetUser ''Bearer token'', SelectLetterById ''L1'']"
proof -
  have a: "admitted demo_platform all_ok fetch_request ''L1''"
    by (simp add: admitted_def endsWith_def demo_defs)
  have b: "found_letter Caller all_ok unlinked_world ''L1'' L1_unlinked"
    "found_letter Service all_ok unlinked_world ''L1'' L1_unlinked"
    by (simp_all add: found_letter_def demo_defs)
  have c: "\<not> present (signed_pdf_path L1_unlinked)" "\<not> present (boldsign_document_id L1_unlinked)"
    by (simp_all add: demo_defs)
  have d: "the (authorization fetch_request) = ''Bearer token''" by (simp add: demo_defs)
  from a b c d
    missing_document_id_refused [of demo_platform all_ok fetch_request "''L1''" Caller
      unlinked_world L1_unlinked demo_env]
    missing_document_id_refused [of demo_platform all_ok fetch_request "''L1''" Service
      unlinked_world L1_unlinked demo_env]
  show ?thesis by simp
qed

section \<open>Retrieving twice\<close>

text \<open>
  C3 as stated fails at the webhook entry point, which never reads the stored path: a
  redelivered \<open>Completed\<close> event for a letter whose signed PDF is already stored
  downloads it again and writes the artifact again.
\<close>

theorem redelivered_completed_counterexample:
  "present (signed_pdf_path L1_completed) \<and>
   filter is_upload (new_calls completed_world
      (snd (boldsign_webhook demo_platform demo_env all_ok (delivery ''Completed'') completed_world))) =
     [Upload ''C1/L1_signed.pdf'' [0x25, 0x50, 0x44, 0x46]]"
  by (simp add: webhook_defs new_calls_def demo_defs Let_def)

text \<open>
  C3, amended. At the on-demand entry point (both versions) retrieval is idempotent: for
  a letter whose stored path is set the answer is that path with \<open>alreadyStored: true\<close>,
  the only outbound calls are the user lookup and the letter query, and tables and store
  are unchanged; hence when a first retrieval succeeds and its path write persists, a
  second retrieval answers the same path with \<open>alreadyStored: true\<close> and the two calls
  together make exactly one artifact write. At the webhook entry point there is no such
  short-circuit: with an API key and a successful download, every \<open>Completed\<close> event
  for a known letter uploads again, to the same key derived from the letter.
\<close>

theorem retrieval_idempotent:
  "(admitted P A req i \<and> found_letter v A w i l \<and> present (signed_pdf_path l) \<longrightarrow>
      fst (fetch v P E A req w) =
        json_response 200 [(''ok'', JBool True), (''path'', JStr (the (signed_pdf_path l))),
                            (''alreadyStored'', JBool True)] \<and>
      new_calls w (snd (fetch v P E A req w)) =
        [AuthGetUser (the (authorization req)), SelectLetterById i] \<and>
      storage (snd (fetch v P E A req w)) = storage w \<and>
      letters (snd (fetch v P E A req w)) = letters w) \<and>
   (admitted P A req i \<and> found_letter v A w i l \<and> \<not> present (signed_pdf_path l) \<and>
    code (fst (fetch v P E A req w)) = 200 \<and> path_update_error A = None \<and>
    admitted P A' req i \<and> found_letter v A' (snd (fetch v P E A req w)) i l' \<longrightarrow>
      fst (fetch v P E A req w) =
        json_response 200 [(''ok'', JBool True),
                            (''path'', JStr (storagePath (client_id l) (ident l)))] \<and>
      fst (fetch v P E A' req (snd (fetch v P E A req w))) =
        json_response 200 [(''ok'', JBool True),
                            (''path'', JStr (storagePath (client_id l) (ident l))),
                            (''alreadyStored'', JBool True)] \<and>
      length (filter is_upload
                (new_calls w (snd (fetch v P E A' req (snd (fetch v P E A req w)))))) = 1) \<and>
   (valid_event P E req' ''Completed'' d \<and> known_letter w d l \<and> \<not> find_error A \<and>
    present (BOLDSIGN_API_KEY E) \<and> download A = DlOk b \<longrightarrow>
      Upload (storagePath (client_id l) (ident l)) b
        \<in> set (new_calls w (snd (boldsign_webhook P E A req' w))))"
proof (intro conjI impI)
  assume a: "admitted P A req i \<and> found_letter v A w i l \<and> present (signed_pdf_path l)"
  then have adm: "admitted P A req i" and f: "found_letter v A w i l" by simp_all
  from a show "fst (fetch v P E A req w) =
        json_response 200 [(''ok'', JBool True), (''path'', JStr (the (signed_pdf_path l))),
                            (''alreadyStored'', JBool True)]"
    by (simp add: fetch_found [OF adm f] Let_def)
  from a show "new_calls w (snd (fetch v P E A req w)) =
        [AuthGetUser (the (authorization req)), SelectLetterById i]"
    by (simp add: fetch_found [OF adm f] Let_def new_calls_def)
  from a show "storage (snd (fetch v P E A req w)) = storage w"
    by (simp add: fetch_found [OF adm f] Let_def)
  from a show "letters (snd (fetch v P E A req w)) = letters w"
    by (simp add: fetch_found [OF adm f] Let_def)
next
  assume a: "valid_event P E req' ''Completed'' d \<and> known_letter w d l \<and> \<not> find_error A \<and>
    present (BOLDSIGN_API_KEY E) \<and> download A = DlOk b"
  then show "Upload (storagePath (client_id l) (ident l)) b
        \<in> set (new_calls w (snd (boldsign_webhook P E A req' w)))"
    using webhook_uploads_again by blast
next
  assume a: "admitted P A req i \<and> found_letter v A w i l \<and> \<not> present (signed_pdf_path l) \<and>
    code (fst (fetch v P E A req w)) = 200 \<and> path_update_error A = None \<and>
    admitted P A' req i \<and> found_letter v A' (snd (fetch v P E A req w)) i l'"
  then have adm: "admitted P A req i" and f: "found_letter v A w i l"
    and fresh: "\<not> present (signed_pdf_path l)" and ok: "code (fst (fetch v P E A req w)) = 200"
    and pu: "path_update_error A = None" and adm': "admitted P A' req i"
    and f': "found_letter v A' (snd (fetch v P E A req w)) i l'"
    by simp_all
  let ?p = "storagePath (client_id l) (ident l)"
  let ?w1 = "snd (fetch v P E A req w)"
  from fetch_fresh_success [OF adm f fresh ok]
  obtain b upd where first: "upd = [] \<or> upd = [(''esign_status'', ''completed'')]"
    "fst (fetch v P E A req w) = json_response 200 [(''ok'', JBool True), (''path'', JStr ?p)]"
    "calls ?w1 = calls w @ [AuthGetUser (the (authorization req)), SelectLetterById i,
              Download (the (boldsign_document_id l)), Upload ?p b,
              UpdateLetter (ident l) ((''signed_pdf_path'', ?p) # upd)]"
    "letters ?w1 = (case path_update_error A of
                None \<Rightarrow> update_letter_rows (ident l) ((''signed_pdf_path'', ?p) # upd) (letters w)
              | Some m \<Rightarrow> letters w)"
    by blast
  from found_letter_ident [OF f] have il: "ident l = i" by simp
  from found_letter_ident [OF f'] have l': "ident l' = i" "l' \<in> set (letters ?w1)" by simp_all
  from l'(2) first(4) pu
  have "l' \<in> set (update_letter_rows (ident l) ((''signed_pdf_path'', ?p) # upd) (letters w))"
    by simp
  from updated_row_path [OF this _ first(1)] l'(1) il
  have stored: "signed_pdf_path l' = Some ?p" by simp
  then have pres: "present (signed_pdf_path l')" by simp
  show "fst (fetch v P E A req w) = json_response 200 [(''ok'', JBool True), (''path'', JStr ?p)]"
    by (rule first(2))
  show "fst (fetch v P E A' req ?w1) =
        json_response 200 [(''ok'', JBool True), (''path'', JStr ?p), (''alreadyStored'', JBool True)]"
    using pres stored by (simp add: fetch_found [OF adm' f'] Let_def)
  have "calls (snd (fetch v P E A' req ?w1)) =
        calls ?w1 @ [AuthGetUser (the (authorization req)), SelectLetterById i]"
    using pres by (simp add: fetch_found [OF adm' f'] Let_def)
  then show "length (filter is_upload (new_calls w (snd (fetch v P E A' req ?w1)))) = 1"
    by (simp add: first(3) new_calls_def)
qed

theorem retrieval_idempotent_witness:
  "admitted demo_platform all_ok fetch_request ''L1'' \<and>
   found_letter Caller all_ok completed_world ''L1'' L1_completed \<and>
   present (signed_pdf_path L1_completed) \<and>
   fst (fetch Caller demo_platform demo_env all_ok fetch_request completed_world) =
     json_response 200 [(''ok'', JBool True), (''path'', JStr ''C1/L1_signed.pdf''),
                         (''alreadyStored'', JBool True)] \<and>
   new_calls completed_world
     (snd (fetch Caller demo_platform demo_env all_ok fetch_request completed_world)) =
     [AuthGetUser ''Bearer token'', SelectLetterById ''L1''] \<and>
   found_letter Caller all_ok signed_world ''L1'' L1_signed \<and>
   \<not> present (signed_pdf_path L1_signed) \<and>
   code (fst (fetch Caller demo_platform demo_env all_ok fetch_request signed_world)) = 200 \<and>
   path_update_error all_ok = None \<and>
   found_letter Caller all_ok
     (snd (fetch Caller demo_platform demo_env all_ok fetch_request signed_world)) ''L1''
     (L1_signed\<lparr>signed_pdf_path := Some ''C1/L1_signed.pdf''\<rparr>) \<and>
   fst (fetch Caller demo_platform demo_env all_ok fetch_request
          (snd (fetch Caller demo_platform demo_env all_ok fetch_request signed_world))) =
     json_response 200 [(''ok'', JBool True), (''path'', JStr ''C1/L1_signed.pdf''),
                         (''alreadyStored'', JBool True)] \<and>
   length (filter is_upload (new_calls signed_world
     (snd (fetch Caller demo_platform demo_env all_ok fetch_request
            (snd (fetch Caller demo_platform demo_env all_ok fetch_request signed_world)))))) = 1 \<and>
   valid_event demo_platform demo_env (delivery ''Completed'') ''Completed'' ''doc-1'' \<and>
   known_letter completed_world ''doc-1'' L1_completed \<and> \<not> find_error all_ok \<and>
   present (BOLDSIGN_API_KEY demo_env) \<and> download all_ok = DlOk [0x25, 0x50, 0x44, 0x46] \<and>
   Upload ''C1/L1_signed.pdf'' [0x25, 0x50, 0x44, 0x46]
     \<in> set (new_calls completed_world
              (snd (boldsign_webhook demo_platform demo_env all_ok (delivery ''Completed'')
                      completed_world)))"
proof -
  have a: "admitted demo_platform all_ok fetch_request ''L1''"
    by (simp add: admitted_def endsWith_def demo_defs)
  have b: "found_letter Caller all_ok completed_world ''L1'' L1_completed"
    "present (signed_pdf_path L1_completed)"
    by (simp_all add: found_letter_def demo_defs)
  have c: "found_letter Caller all_ok signed_world ''L1'' L1_signed"
    "\<not> present (signed_pdf_path L1_signed)" "path_update_error all_ok = None"
    by (simp_all add: found_letter_def demo_defs)
  have first: "fetch Caller demo_platform demo_env all_ok fetch_request signed_world =
      (json_response 200 [(''ok'', JBool True), (''path'', JStr ''C1/L1_signed.pdf'')],
       signed_world\<lparr>letters := [L1_signed\<lparr>signed_pdf_path := Some ''C1/L1_signed.pdf''\<rparr>],
                     storage := [(''C1/L1_signed.pdf'', [0x25, 0x50, 0x44, 0x46])],
                     calls := [AuthGetUser ''Bearer token'', SelectLetterById ''L1'', Download ''doc-1'',
                               Upload ''C1/L1_signed.pdf'' [0x25, 0x50, 0x44, 0x46],
                               UpdateLetter ''L1'' [(''signed_pdf_path'', ''C1/L1_signed.pdf'')]]\<rparr>)"
    by (simp add: fetch_defs demo_defs Let_def)
  have d: "code (fst (fetch Caller demo_platform demo_env all_ok fetch_request signed_world)) = 200"
    by (simp add: first)
  have e: "found_letter Caller all_ok
     (snd (fetch Caller demo_platform demo_env all_ok fetch_request signed_world)) ''L1''
     (L1_signed\<lparr>signed_pdf_path := Some ''C1/L1_signed.pdf''\<rparr>)"
    by (simp add: first found_letter_def) (simp add: demo_defs)
  have f: "valid_event demo_platform demo_env (delivery ''Completed'') ''Completed'' ''doc-1''"
    by (simp add: valid_event_def accepted_def payload_eventType_def payload_documentId_def
        js_or_def HANDLED_EVENTS_def demo_defs)
  have g: "known_letter completed_world ''doc-1'' L1_completed" "\<not> find_error all_ok"
    "present (BOLDSIGN_API_KEY demo_env)" "download all_ok = DlOk [0x25, 0x50, 0x44, 0x46]"
    by (simp_all add: known_letter_def demo_defs)
  have h: "the (signed_pdf_path L1_completed) = ''C1/L1_signed.pdf''"
    "the (authorization fetch_request) = ''Bearer token''"
    "storagePath (client_id L1_signed) (ident L1_signed) = ''C1/L1_signed.pdf''"
    "storagePath (client_id L1_completed) (ident L1_completed) = ''C1/L1_signed.pdf''"
    by (simp_all add: storagePath_def interp_def demo_defs)
  note stored = retrieval_idempotent [where P = demo_platform and A = all_ok and req = fetch_request
      and i = "''L1''" and v = Caller and w = completed_world and l = L1_completed and E = demo_env,
      THEN conjunct1]
  note twice = retrieval_idempotent [where P = demo_platform and A = all_ok and req = fetch_request
      and i = "''L1''" and v = Caller and w = signed_world and l = L1_signed and E = demo_env
      and A' = all_ok and l' = "L1_signed\<lparr>signed_pdf_path := Some ''C1/L1_signed.pdf''\<rparr>",
      THEN conjunct2, THEN conjunct1]
  note push = retrieval_idempotent [where P = demo_platform and A = all_ok and E = demo_env
      and req' = "delivery ''Completed''" and d = "''doc-1''" and w = completed_world
      and l = L1_completed and b = "[0x25, 0x50, 0x44, 0x46]",
      THEN conjunct2, THEN conjunct2]
  from stored twice push a b c d e f g h show ?thesis by simp
qed

section \<open>One key per letter\<close>




end
